theory Spec2Isabelle
  imports Complex_Main
begin

section \<open>Python values used by app.py\<close>

text \<open>
  A Python float is either a finite number, an infinity or NaN. A finite float is
  represented by the real number it denotes, so comparisons against the integer
  literals of the source are exact. Arithmetic on finite values is the arithmetic of
  the reals: rounding to 53 bits and overflow to infinity are not represented, and no
  theorem below depends on the low-order digits of a result. A JSON integer is the
  finite value it denotes.
\<close>

datatype pyfloat = Fin real | PosInf | NegInf | NaN

fun is_finite :: "pyfloat \<Rightarrow> bool" where
  "is_finite (Fin r) = True"
| "is_finite x = False"

fun is_inf :: "pyfloat \<Rightarrow> bool" where
  "is_inf PosInf = True"
| "is_inf NegInf = True"
| "is_inf x = False"

text \<open>\<^verbatim>\<open>a <= b\<close> and \<^verbatim>\<open>a < b\<close>: every comparison with NaN is false.\<close>

fun py_le :: "pyfloat \<Rightarrow> pyfloat \<Rightarrow> bool" where
  "py_le NaN b = False"
| "py_le a NaN = False"
| "py_le NegInf b = True"
| "py_le a PosInf = True"
| "py_le (Fin a) (Fin b) = (a \<le> b)"
| "py_le a b = False"

fun py_lt :: "pyfloat \<Rightarrow> pyfloat \<Rightarrow> bool" where
  "py_lt NaN b = False"
| "py_lt a NaN = False"
| "py_lt PosInf b = False"
| "py_lt a NegInf = False"
| "py_lt (Fin a) (Fin b) = (a < b)"
| "py_lt a b = True"

text \<open>The chained comparison \<^verbatim>\<open>lo <= x <= hi\<close> is \<^verbatim>\<open>lo <= x and x <= hi\<close>.\<close>

definition between :: "pyfloat \<Rightarrow> pyfloat \<Rightarrow> pyfloat \<Rightarrow> bool" where
  "between lo x hi = (py_le lo x \<and> py_le x hi)"

text \<open>Truth value of a float: zero is false, everything else (NaN included) is true.\<close>

fun truthy_float :: "pyfloat \<Rightarrow> bool" where
  "truthy_float (Fin r) = (r \<noteq> 0)"
| "truthy_float x = True"

text \<open>
  \<^verbatim>\<open>round(x, n)\<close> on a float: NaN and the infinities are returned as they are; a
  finite value is rounded to the nearest multiple of \<open>10\<^sup>-\<^sup>n\<close>, ties to even.
  CPython rounds the exact value of the float and then takes the nearest float; the
  model stops at the decimal.
\<close>

definition round_half_even :: "real \<Rightarrow> int" where
  "round_half_even r =
     (let f = \<lfloor>r\<rfloor>; d = r - of_int f in
      if d < 1 / 2 then f else if 1 / 2 < d then f + 1 else if even f then f else f + 1)"

fun py_round :: "pyfloat \<Rightarrow> nat \<Rightarrow> pyfloat" where
  "py_round (Fin r) n = Fin (of_int (round_half_even (r * 10 ^ n)) / 10 ^ n)"
| "py_round x n = x"

subsection \<open>Float arithmetic and the math module\<close>

text \<open>
  An exception is the left summand, carrying \<^verbatim>\<open>str(e)\<close>; \<open>bind_exn\<close> runs the next
  statement only when the previous one did not raise.
\<close>

definition bind_exn :: "string + 'a \<Rightarrow> ('a \<Rightarrow> string + 'b) \<Rightarrow> string + 'b" where
  "bind_exn m f = (case m of Inl e \<Rightarrow> Inl e | Inr v \<Rightarrow> f v)"

fun fneg :: "pyfloat \<Rightarrow> pyfloat" where
  "fneg (Fin r) = Fin (- r)"
| "fneg PosInf = NegInf"
| "fneg NegInf = PosInf"
| "fneg NaN = NaN"

fun fadd :: "pyfloat \<Rightarrow> pyfloat \<Rightarrow> pyfloat" where
  "fadd NaN b = NaN"
| "fadd a NaN = NaN"
| "fadd (Fin a) (Fin b) = Fin (a + b)"
| "fadd (Fin a) b = b"
| "fadd a (Fin b) = a"
| "fadd a b = (if a = b then a else NaN)"

definition fsub :: "pyfloat \<Rightarrow> pyfloat \<Rightarrow> pyfloat" where
  "fsub a b = fadd a (fneg b)"

text \<open>A finite factor times an infinity: zero gives NaN, otherwise the sign decides.\<close>

definition scale_inf :: "real \<Rightarrow> pyfloat \<Rightarrow> pyfloat" where
  "scale_inf a i = (if a = 0 then NaN else if 0 < a then i else fneg i)"

fun fmul :: "pyfloat \<Rightarrow> pyfloat \<Rightarrow> pyfloat" where
  "fmul NaN b = NaN"
| "fmul a NaN = NaN"
| "fmul (Fin a) (Fin b) = Fin (a * b)"
| "fmul (Fin a) b = scale_inf a b"
| "fmul a (Fin b) = scale_inf b a"
| "fmul a b = (if a = b then PosInf else NegInf)"

text \<open>\<^verbatim>\<open>a / b\<close> raises ZeroDivisionError on a zero divisor, whatever the dividend.\<close>

fun fdiv :: "pyfloat \<Rightarrow> pyfloat \<Rightarrow> string + pyfloat" where
  "fdiv a (Fin b) =
     (if b = 0 then Inl ''float division by zero''
      else Inr (case a of Fin r \<Rightarrow> Fin (r / b) | NaN \<Rightarrow> NaN | i \<Rightarrow> scale_inf b i))"
| "fdiv a NaN = Inr NaN"
| "fdiv NaN b = Inr NaN"
| "fdiv (Fin a) b = Inr (Fin 0)"
| "fdiv a b = Inr NaN"

text \<open>\<^verbatim>\<open>x ** n\<close> for the positive integer exponents of the source (2 and 4).\<close>

fun fpow :: "pyfloat \<Rightarrow> nat \<Rightarrow> pyfloat" where
  "fpow (Fin r) n = Fin (r ^ n)"
| "fpow PosInf n = PosInf"
| "fpow NegInf n = (if even n then PosInf else NegInf)"
| "fpow NaN n = NaN"

fun m_radians :: "pyfloat \<Rightarrow> pyfloat" where
  "m_radians (Fin r) = Fin (r * (pi / 180))"
| "m_radians x = x"

fun m_degrees :: "pyfloat \<Rightarrow> pyfloat" where
  "m_degrees (Fin r) = Fin (r * (180 / pi))"
| "m_degrees x = x"

text \<open>\<^verbatim>\<open>math.sin\<close>, \<^verbatim>\<open>math.cos\<close> and \<^verbatim>\<open>math.tan\<close> raise ValueError on an infinity.\<close>

fun m_sin :: "pyfloat \<Rightarrow> string + pyfloat" where
  "m_sin (Fin r) = Inr (Fin (sin r))"
| "m_sin NaN = Inr NaN"
| "m_sin x = Inl ''math domain error''"

fun m_cos :: "pyfloat \<Rightarrow> string + pyfloat" where
  "m_cos (Fin r) = Inr (Fin (cos r))"
| "m_cos NaN = Inr NaN"
| "m_cos x = Inl ''math domain error''"

fun m_tan :: "pyfloat \<Rightarrow> string + pyfloat" where
  "m_tan (Fin r) = Inr (Fin (tan r))"
| "m_tan NaN = Inr NaN"
| "m_tan x = Inl ''math domain error''"

fun m_atan :: "pyfloat \<Rightarrow> pyfloat" where
  "m_atan (Fin r) = Fin (arctan r)"
| "m_atan PosInf = Fin (pi / 2)"
| "m_atan NegInf = Fin (- (pi / 2))"
| "m_atan NaN = NaN"

fun m_sqrt :: "pyfloat \<Rightarrow> string + pyfloat" where
  "m_sqrt (Fin r) = (if r < 0 then Inl ''math domain error'' else Inr (Fin (sqrt r)))"
| "m_sqrt PosInf = Inr PosInf"
| "m_sqrt NegInf = Inl ''math domain error''"
| "m_sqrt NaN = Inr NaN"

section \<open>The CRS registry and the accuracy table\<close>

text \<open>
  A Python dict with string keys is an association list with distinct keys;
  \<^verbatim>\<open>d.get(k)\<close> is \<open>map_of d k\<close>.
\<close>

definition CRS_DEFINITIONS :: "(string \<times> string) list" where
  "CRS_DEFINITIONS =
     [(''WGS84'', ''EPSG:4326''),
      (''UTM_30N'', ''EPSG:32630''),
      (''UTM_31N'', ''EPSG:32631''),
      (''GHANA_GRID'', ''+proj=tmerc +lat_0=4.666666666666667 +lon_0=-1 +k=0.99975 +x_0=274319.51 +y_0=0 +ellps=clrk80 +towgs84=-199,32,322,0,0,0,0 +units=m +no_defs''),
      (''WEB_MERCATOR'', ''EPSG:3857'')]"

record accuracy_info =
  acc_accuracy :: string
  acc_description :: string
  acc_use_case :: string

definition TRANSFORMATION_ACCURACY :: "(string \<times> accuracy_info) list" where
  "TRANSFORMATION_ACCURACY =
     [(''WGS84_to_UTM'',
        \<lparr>acc_accuracy = ''< 1 meter'',
         acc_description = ''High accuracy transformation using standard UTM projection parameters'',
         acc_use_case = ''Engineering surveys, cadastral mapping, GIS applications''\<rparr>),
      (''WGS84_to_GHANA_GRID'',
        \<lparr>acc_accuracy = ''1-5 meters'',
         acc_description = ''Uses Helmert transformation with 7 parameters. Accuracy depends on the datum shift parameters'',
         acc_use_case = ''Land surveying in Ghana, integration with national mapping systems''\<rparr>),
      (''UTM_to_GHANA_GRID'',
        \<lparr>acc_accuracy = ''1-5 meters'',
         acc_description = ''Involves datum transformation via WGS84. Compound transformation may introduce small errors'',
         acc_use_case = ''Converting international survey data to Ghana national system''\<rparr>),
      (''GHANA_GRID_to_WGS84'',
        \<lparr>acc_accuracy = ''1-5 meters'',
         acc_description = ''Reverse Helmert transformation. Accuracy similar to forward transformation'',
         acc_use_case = ''Publishing Ghana survey data in international standard format''\<rparr>)]"

text \<open>The generic descriptor written out in the else branch of transform_coordinates.\<close>

definition generic_accuracy :: accuracy_info where
  "generic_accuracy =
     \<lparr>acc_accuracy = ''1-5 meters'',
      acc_description = ''Standard transformation accuracy for properly defined CRS'',
      acc_use_case = ''General GIS and surveying applications''\<rparr>"

section \<open>The geodetic helpers\<close>

definition get_utm_zone :: "pyfloat \<Rightarrow> string" where
  "get_utm_zone longitude =
     (if py_le (Fin (- 6)) longitude \<and> py_lt longitude (Fin 0) then ''UTM_30N''
      else if between (Fin 0) longitude (Fin 6) then ''UTM_31N''
      else ''UTM_30N'')"

definition calculate_convergence :: "pyfloat \<Rightarrow> pyfloat \<Rightarrow> pyfloat \<Rightarrow> string + pyfloat" where
  "calculate_convergence lat lon central_meridian =
     (let lat_rad = m_radians lat;
          delta_lon = fsub lon central_meridian in
      bind_exn (m_tan (m_radians delta_lon)) (\<lambda>t.
      bind_exn (m_sin lat_rad) (\<lambda>s.
      let convergence = m_atan (fmul t s) in
      Inr (m_degrees convergence))))"

definition k0_default :: pyfloat where
  "k0_default = Fin 0.9996"

definition calculate_scale_factor ::
  "pyfloat \<Rightarrow> pyfloat \<Rightarrow> pyfloat \<Rightarrow> pyfloat \<Rightarrow> string + pyfloat" where
  "calculate_scale_factor lat lon central_meridian k0 =
     (let lat_rad = m_radians lat;
          delta_lon_rad = m_radians (fsub lon central_meridian);
          a = Fin 6378137;
          e2 = Fin 0.00669438 in
      bind_exn (m_sin lat_rad) (\<lambda>s.
      bind_exn (m_sqrt (fsub (Fin 1) (fmul e2 (fpow s 2)))) (\<lambda>q.
      bind_exn (fdiv a q) (\<lambda>N.
      bind_exn (m_tan lat_rad) (\<lambda>t.
      let T = fpow t 2 in
      bind_exn (m_cos lat_rad) (\<lambda>c.
      bind_exn (fdiv (fmul e2 (fpow c 2)) (fsub (Fin 1) e2)) (\<lambda>C.
      bind_exn (m_cos lat_rad) (\<lambda>c'.
      let A = fmul delta_lon_rad c' in
      bind_exn (fdiv (fmul (fadd (Fin 1) C) (fpow A 2)) (Fin 2)) (\<lambda>u.
      bind_exn (fdiv
          (fmul (fsub (fadd (fadd (fsub (Fin 5) (fmul (Fin 4) T)) (fmul (Fin 42) C))
                         (fmul (Fin 13) (fpow C 2)))
                      (fmul (Fin 28) e2))
                (fpow A 4))
          (Fin 24)) (\<lambda>w.
      let k = fmul k0 (fadd (fadd (Fin 1) u) w) in
      Inr k))))))))))"

section \<open>The validator\<close>

record validation =
  v_valid :: bool
  v_warnings :: "string list"
  v_errors :: "string list"

definition add_error :: "string \<Rightarrow> validation \<Rightarrow> validation" where
  "add_error msg v = v\<lparr>v_valid := False, v_errors := v_errors v @ [msg]\<rparr>"

definition add_warning :: "string \<Rightarrow> validation \<Rightarrow> validation" where
  "add_warning msg v = v\<lparr>v_warnings := v_warnings v @ [msg]\<rparr>"

text \<open>The degree sign of the two Ghana messages is the code point U+00B0.\<close>

definition lon_error_msg :: string where
  "lon_error_msg = ''Longitude must be between -180 and 180 degrees''"

definition lat_error_msg :: string where
  "lat_error_msg = ''Latitude must be between -90 and 90 degrees''"

definition lon_ghana_msg :: string where
  "lon_ghana_msg =
     ''Longitude outside Ghana bounds (approximately -4'' @ [CHR 0xB0] @ '' to 2'' @ [CHR 0xB0] @ '')''"

definition lat_ghana_msg :: string where
  "lat_ghana_msg =
     ''Latitude outside Ghana bounds (approximately 4'' @ [CHR 0xB0] @ '' to 12'' @ [CHR 0xB0] @ '')''"

text \<open>
  The message of the TypeError an integer literal raises when compared with
  \<^verbatim>\<open>None\<close> (a missing or null \<^verbatim>\<open>x\<close> or \<^verbatim>\<open>y\<close>).
\<close>

definition none_compare_msg :: string where
  "none_compare_msg = [CHR 0x27] @ ''<='' @ [CHR 0x27]
     @ '' not supported between instances of '' @ [CHR 0x27] @ ''int'' @ [CHR 0x27]
     @ '' and '' @ [CHR 0x27] @ ''NoneType'' @ [CHR 0x27]"

definition check_wgs84 :: "pyfloat \<Rightarrow> pyfloat \<Rightarrow> validation \<Rightarrow> validation" where
  "check_wgs84 x y v0 =
     (let v1 = (if \<not> between (Fin (- 180)) x (Fin 180) then add_error lon_error_msg v0 else v0);
          v2 = (if \<not> between (Fin (- 90)) y (Fin 90) then add_error lat_error_msg v1 else v1);
          v3 = (if \<not> between (Fin (- 4)) x (Fin 2) then add_warning lon_ghana_msg v2 else v2);
          v4 = (if \<not> between (Fin 4) y (Fin 12) then add_warning lat_ghana_msg v3 else v3)
      in v4)"

definition check_utm :: "pyfloat \<Rightarrow> pyfloat \<Rightarrow> validation \<Rightarrow> validation" where
  "check_utm x y v0 =
     (let v1 = (if \<not> between (Fin 160000) x (Fin 840000)
                then add_warning ''Easting outside typical UTM zone range'' v0 else v0);
          v2 = (if \<not> between (Fin 0) y (Fin 10000000)
                then add_warning ''Northing outside typical Northern hemisphere range'' v1 else v1)
      in v2)"

definition check_ghana_grid :: "pyfloat \<Rightarrow> pyfloat \<Rightarrow> validation \<Rightarrow> validation" where
  "check_ghana_grid x y v0 =
     (let v1 = (if \<not> between (Fin 0) x (Fin 500000)
                then add_warning ''Easting outside typical Ghana Grid range'' v0 else v0);
          v2 = (if \<not> between (Fin 0) y (Fin 1000000)
                then add_warning ''Northing outside typical Ghana Grid range'' v1 else v1)
      in v2)"

text \<open>
  \<^verbatim>\<open>validate_coordinates\<close>: \<open>crs\<close>, \<open>x\<close> and \<open>y\<close> are what \<^verbatim>\<open>data.get\<close> returns,
  \<open>None\<close> for a missing key or a JSON null. The result is the report, or the status
  and message of the error response. In a branch that compares, a \<^verbatim>\<open>None\<close> operand
  raises on the first comparison that meets it, and the handler answers 500.
\<close>

definition validate_coordinates ::
  "string option \<Rightarrow> pyfloat option \<Rightarrow> pyfloat option \<Rightarrow> (nat \<times> string) + validation" where
  "validate_coordinates crs x y =
     (let validation = \<lparr>v_valid = True, v_warnings = [], v_errors = []\<rparr> in
      if crs = Some ''WGS84'' then
        (case (x, y) of
           (Some x', Some y') \<Rightarrow> Inr (check_wgs84 x' y' validation)
         | _ \<Rightarrow> Inl (500, none_compare_msg))
      else if crs \<in> {Some ''UTM_30N'', Some ''UTM_31N''} then
        (case (x, y) of
           (Some x', Some y') \<Rightarrow> Inr (check_utm x' y' validation)
         | _ \<Rightarrow> Inl (500, none_compare_msg))
      else if crs = Some ''GHANA_GRID'' then
        (case (x, y) of
           (Some x', Some y') \<Rightarrow> Inr (check_ghana_grid x' y' validation)
         | _ \<Rightarrow> Inl (500, none_compare_msg))
      else Inr validation)"

section \<open>The transformation pipeline\<close>

text \<open>
  pyproj is a library outside the repository, so it is a parameter of the model:
  \<open>from_crs source_def target_def\<close> stands for
  \<^verbatim>\<open>Transformer.from_crs(source_def, target_def, always_xy=True)\<close> and returns the
  transformer, or the message of the exception it raises; a transformer maps
  \<^verbatim>\<open>(x, y)\<close> to the pair \<^verbatim>\<open>transformer.transform(x, y)\<close> returns, or to the message of
  the exception. Every theorem about the pipeline holds for every such parameter.
\<close>

type_synonym transformer = "pyfloat \<Rightarrow> pyfloat \<Rightarrow> string + pyfloat \<times> pyfloat"

type_synonym pyproj = "string \<Rightarrow> string \<Rightarrow> string + transformer"

text \<open>
  The JSON body of a request: each field is what \<^verbatim>\<open>data.get\<close> returns, \<open>None\<close> for
  a missing key or a JSON null. The CRS codes are strings and the coordinates a JSON
  object of numbers; a body with values of other JSON types is outside the model.
\<close>

record transform_request =
  req_source_crs :: "string option"
  req_target_crs :: "string option"
  req_coordinates :: "(string \<times> pyfloat) list option"

record point =
  pt_crs :: string
  pt_x :: pyfloat
  pt_y :: pyfloat

record utm_metadata =
  md_zone :: string
  md_convergence :: pyfloat
  md_scale_factor :: pyfloat

record transformation_result =
  res_source :: point
  res_target :: point
  res_metadata :: "utm_metadata option"
  res_accuracy :: accuracy_info

text \<open>\<^verbatim>\<open>a or b\<close> on two optional floats: \<open>a\<close> when it is true, otherwise \<open>b\<close>.\<close>

definition or_float :: "pyfloat option \<Rightarrow> pyfloat option \<Rightarrow> pyfloat option" where
  "or_float a b = (case a of Some v \<Rightarrow> if truthy_float v then a else b | None \<Rightarrow> b)"

definition startswith :: "string \<Rightarrow> string \<Rightarrow> bool" where
  "startswith s p = (take (length p) s = p)"

text \<open>
  Lines 157 to 162: the automatic choice of the UTM zone. The result is the target
  code and its definition after the step, or the message of the exception raised:
  \<^verbatim>\<open>get_utm_zone(None)\<close> raises TypeError on its first comparison. \<open>get_utm_zone\<close>
  returns registered codes only, so the last lookup always finds a definition; the
  branch for a missing one stands for pyproj rejecting \<^verbatim>\<open>None\<close>.
\<close>

definition auto_utm_zone ::
  "string \<Rightarrow> string \<Rightarrow> (string \<times> pyfloat) list \<Rightarrow> string \<Rightarrow> string + string \<times> string" where
  "auto_utm_zone source_crs target_crs coordinates target_def =
     (if source_crs = ''WGS84'' \<and> startswith target_crs ''UTM'' then
        if target_crs = ''UTM_AUTO'' then
          (case or_float (map_of coordinates ''lon'') (map_of coordinates ''x'') of
             None \<Rightarrow> Inl none_compare_msg
           | Some lon \<Rightarrow>
               (let target_crs' = get_utm_zone lon in
                case map_of CRS_DEFINITIONS target_crs' of
                  Some target_def' \<Rightarrow> Inr (target_crs', target_def')
                | None \<Rightarrow> Inl ''Invalid projection: None''))
        else Inr (target_crs, target_def)
      else Inr (target_crs, target_def))"

text \<open>
  Lines 193 to 201: the metadata block, computed from the request's own \<open>x\<close> and \<open>y\<close>
  (longitude and latitude), convergence first.
\<close>

definition metadata_block ::
  "string \<Rightarrow> string \<Rightarrow> pyfloat \<Rightarrow> pyfloat \<Rightarrow> string + utm_metadata option" where
  "metadata_block source_crs target_crs x y =
     (if target_crs \<in> {''UTM_30N'', ''UTM_31N''} then
        (let central_meridian = (if target_crs = ''UTM_30N'' then Fin (- 3) else Fin 3) in
         if source_crs = ''WGS84'' then
           bind_exn (calculate_convergence y x central_meridian) (\<lambda>c.
           bind_exn (calculate_scale_factor y x central_meridian k0_default) (\<lambda>k.
           Inr (Some \<lparr>md_zone = target_crs,
                      md_convergence = py_round c 6,
                      md_scale_factor = py_round k 8\<rparr>)))
         else Inr None)
      else Inr None)"

text \<open>Lines 203 to 213: the accuracy block.\<close>

definition accuracy_block :: "string \<Rightarrow> string \<Rightarrow> accuracy_info" where
  "accuracy_block source_crs target_crs =
     (let transform_key = source_crs @ ''_to_'' @ target_crs in
      case map_of TRANSFORMATION_ACCURACY transform_key of
        Some a \<Rightarrow> a
      | None \<Rightarrow> generic_accuracy)"

text \<open>
  \<^verbatim>\<open>transform_coordinates\<close>. The result is the Transformation Result of a 200
  response, or the status and message of an error response: 400 for the three checks
  of the handler, 500 with \<^verbatim>\<open>str(e)\<close> for an exception its \<^verbatim>\<open>except\<close> clause catches.
  \<^verbatim>\<open>all([...])\<close> is false when a value is \<^verbatim>\<open>None\<close>, an empty string or an empty
  object. No registered definition is an empty string, so \<^verbatim>\<open>not source_def\<close> holds
  exactly when the lookup found nothing.
\<close>

definition transform_coordinates ::
  "pyproj \<Rightarrow> transform_request \<Rightarrow> (nat \<times> string) + transformation_result" where
  "transform_coordinates from_crs data =
     (case (req_source_crs data, req_target_crs data, req_coordinates data) of
        (Some source_crs, Some target_crs, Some coordinates) \<Rightarrow>
          if source_crs = [] \<or> target_crs = [] \<or> coordinates = [] then
            Inl (400, ''Missing required parameters'')
          else
            (case (map_of CRS_DEFINITIONS source_crs, map_of CRS_DEFINITIONS target_crs) of
               (Some source_def, Some target_def) \<Rightarrow>
                 (case auto_utm_zone source_crs target_crs coordinates target_def of
                    Inl e \<Rightarrow> Inl (500, e)
                  | Inr (target_crs', target_def') \<Rightarrow>
                      (case from_crs source_def target_def' of
                         Inl e \<Rightarrow> Inl (500, e)
                       | Inr transformer \<Rightarrow>
                           (case (if source_crs = ''WGS84''
                                  then (map_of coordinates ''lon'', map_of coordinates ''lat'')
                                  else (map_of coordinates ''x'', map_of coordinates ''y'')) of
                              (Some x, Some y) \<Rightarrow>
                                (case transformer x y of
                                   Inl e \<Rightarrow> Inl (500, e)
                                 | Inr (transformed_x, transformed_y) \<Rightarrow>
                                     (case metadata_block source_crs target_crs' x y of
                                        Inl e \<Rightarrow> Inl (500, e)
                                      | Inr md \<Rightarrow>
                                          Inr \<lparr>res_source =
                                                 \<lparr>pt_crs = source_crs, pt_x = x, pt_y = y\<rparr>,
                                               res_target =
                                                 \<lparr>pt_crs = target_crs',
                                                  pt_x = py_round transformed_x 6,
                                                  pt_y = py_round transformed_y 6\<rparr>,
                                               res_metadata = md,
                                               res_accuracy =
                                                 accuracy_block source_crs target_crs'\<rparr>))
                            | _ \<Rightarrow> Inl (400, ''Invalid coordinate values''))))
             | _ \<Rightarrow> Inl (400, ''Invalid CRS specified''))
      | _ \<Rightarrow> Inl (400, ''Missing required parameters''))"

text \<open>The target pair of a response: \<open>None\<close> for an error response.\<close>

definition target_pair ::
  "(nat \<times> string) + transformation_result \<Rightarrow> (pyfloat \<times> pyfloat) option" where
  "target_pair r = (case r of Inl e \<Rightarrow> None
                    | Inr res \<Rightarrow> Some (pt_x (res_target res), pt_y (res_target res)))"

text \<open>
  Two stand-ins for pyproj, used to run the pipeline on concrete requests: one whose
  transformers return the point they are given (what pyproj does between a CRS and
  itself), and one whose transformers return infinity on both axes (what pyproj
  returns, without raising, for a point it cannot project).
\<close>

definition noop_pyproj :: pyproj where
  "noop_pyproj source_def target_def = Inr (\<lambda>x y. Inr (x, y))"

definition inf_pyproj :: pyproj where
  "inf_pyproj source_def target_def = Inr (\<lambda>x y. Inr (PosInf, PosInf))"

section \<open>The batch processor\<close>

text \<open>
  A row read by \<^verbatim>\<open>csv.DictReader\<close> is a dict from the column names to the cells: an
  association list with distinct keys, in the order of the columns. A cell is a
  string, or \<^verbatim>\<open>None\<close> where the line is shorter than the header. A character is a
  code point below 256. A result row also holds the floats the handler adds.
\<close>

type_synonym csv_row = "(string \<times> string option) list"

datatype pyval = VNone | VStr string | VNum pyfloat

type_synonym row = "(string \<times> pyval) list"

text \<open>\<^verbatim>\<open>row.get(k)\<close>: \<^verbatim>\<open>None\<close> for a missing column.\<close>

definition py_get :: "csv_row \<Rightarrow> string \<Rightarrow> string option" where
  "py_get r k = (case map_of r k of None \<Rightarrow> None | Some v \<Rightarrow> v)"

text \<open>Truth value of a cell: \<^verbatim>\<open>None\<close> and the empty string are false.\<close>

fun truthy :: "string option \<Rightarrow> bool" where
  "truthy None = False"
| "truthy (Some s) = (s \<noteq> [])"

definition py_or :: "string option \<Rightarrow> string option \<Rightarrow> string option" where
  "py_or a b = (if truthy a then a else b)"

text \<open>\<^verbatim>\<open>dict(row)\<close>: the copy the handler extends.\<close>

definition dict_of_row :: "csv_row \<Rightarrow> row" where
  "dict_of_row r = map (\<lambda>(k, v). (k, case v of None \<Rightarrow> VNone | Some s \<Rightarrow> VStr s)) r"

text \<open>\<^verbatim>\<open>d[k] = v\<close>: an existing key keeps its place, a new key goes last.\<close>

fun dict_set :: "row \<Rightarrow> string \<Rightarrow> pyval \<Rightarrow> row" where
  "dict_set [] k v = [(k, v)]"
| "dict_set ((k', v') # r) k v = (if k' = k then (k, v) # r else (k', v') # dict_set r k v)"

subsection \<open>The builtin float on a string\<close>

text \<open>
  \<^verbatim>\<open>float(s)\<close> strips white space, reads an optional sign and then \<^verbatim>\<open>inf\<close>,
  \<^verbatim>\<open>infinity\<close> or \<^verbatim>\<open>nan\<close> in any case, or a decimal number: digits with an optional
  fraction and an optional exponent, where single underscores may stand between
  digits. Anything else raises ValueError. The value of a decimal number is the real
  it denotes, or an infinity from the magnitude at which the nearest float is one.
\<close>

definition is_space :: "char \<Rightarrow> bool" where
  "is_space c = ((of_char c :: nat) \<in> {9, 10, 11, 12, 13, 28, 29, 30, 31, 32, 133, 160})"

definition is_digit :: "char \<Rightarrow> bool" where
  "is_digit c = (48 \<le> (of_char c :: nat) \<and> (of_char c :: nat) \<le> 57)"

definition digit_val :: "char \<Rightarrow> nat" where
  "digit_val c = of_char c - 48"

definition to_lower :: "char \<Rightarrow> char" where
  "to_lower c = (if 65 \<le> (of_char c :: nat) \<and> (of_char c :: nat) \<le> 90
                 then char_of ((of_char c :: nat) + 32) else c)"

definition strip :: "string \<Rightarrow> string" where
  "strip s = rev (dropWhile is_space (rev (dropWhile is_space s)))"

text \<open>
  The digits after the first one: the value so far, the number of digits so far and
  the text left to read. The result is the value, the number of digits and the rest.
\<close>

fun digits_tail :: "nat \<Rightarrow> nat \<Rightarrow> string \<Rightarrow> nat \<times> nat \<times> string" where
  "digits_tail v n [] = (v, n, [])"
| "digits_tail v n [c] =
     (if is_digit c then (10 * v + digit_val c, Suc n, []) else (v, n, [c]))"
| "digits_tail v n (c # d # cs) =
     (if is_digit c then digits_tail (10 * v + digit_val c) (Suc n) (d # cs)
      else if c = CHR ''_'' \<and> is_digit d then digits_tail (10 * v + digit_val d) (Suc n) cs
      else (v, n, c # d # cs))"

definition digitpart :: "string \<Rightarrow> (nat \<times> nat \<times> string) option" where
  "digitpart s =
     (case s of
        [] \<Rightarrow> None
      | c # cs \<Rightarrow> if is_digit c then Some (digits_tail (digit_val c) 1 cs) else None)"

text \<open>A number: digits with an optional point and fraction, or a point and a fraction.\<close>

definition parse_number :: "string \<Rightarrow> (real \<times> string) option" where
  "parse_number s =
     (case digitpart s of
        Some (iv, n, r) \<Rightarrow>
          (case r of
             c # r' \<Rightarrow>
               if c = CHR ''.'' then
                 (case digitpart r' of
                    Some (fv, fn, r'') \<Rightarrow> Some (real iv + real fv / 10 ^ fn, r'')
                  | None \<Rightarrow> Some (real iv, r'))
               else Some (real iv, r)
           | [] \<Rightarrow> Some (real iv, r))
      | None \<Rightarrow>
          (case s of
             c # r' \<Rightarrow>
               if c = CHR ''.'' then
                 (case digitpart r' of
                    Some (fv, fn, r'') \<Rightarrow> Some (real fv / 10 ^ fn, r'')
                  | None \<Rightarrow> None)
               else None
           | [] \<Rightarrow> None))"

text \<open>
  What follows the number, to the end of the text: nothing (exponent 0), or an
  exponent; \<open>None\<close> for anything else.
\<close>

definition parse_exponent :: "string \<Rightarrow> int option" where
  "parse_exponent r =
     (case r of
        [] \<Rightarrow> Some 0
      | c # cs \<Rightarrow>
          if c = CHR ''e'' \<or> c = CHR ''E'' then
            (case cs of
               [] \<Rightarrow> None
             | d # ds \<Rightarrow>
                 (let neg = (d = CHR ''-'');
                      digits = (if d = CHR ''-'' \<or> d = CHR ''+'' then ds else cs) in
                  case digitpart digits of
                    Some (v, n, []) \<Rightarrow> Some (if neg then - int v else int v)
                  | _ \<Rightarrow> None))
          else None)"

definition scale10 :: "real \<Rightarrow> int \<Rightarrow> real" where
  "scale10 m e = (if 0 \<le> e then m * 10 ^ nat e else m / 10 ^ nat (- e))"

text \<open>A non-negative real as a float: from \<open>2\<^sup>1\<^sup>0\<^sup>2\<^sup>4 - 2\<^sup>9\<^sup>7\<^sup>0\<close> on, the nearest float is infinity.\<close>

definition to_float :: "real \<Rightarrow> pyfloat" where
  "to_float v = (if 2 ^ 1024 - 2 ^ 970 \<le> v then PosInf else Fin v)"

definition parse_unsigned :: "string \<Rightarrow> pyfloat option" where
  "parse_unsigned s =
     (let l = map to_lower s in
      if l = ''inf'' \<or> l = ''infinity'' then Some PosInf
      else if l = ''nan'' then Some NaN
      else (case parse_number s of
              None \<Rightarrow> None
            | Some (m, r) \<Rightarrow>
                (case parse_exponent r of
                   None \<Rightarrow> None
                 | Some e \<Rightarrow> Some (to_float (scale10 m e)))))"

definition str_to_float :: "string \<Rightarrow> pyfloat option" where
  "str_to_float s =
     (case strip s of
        [] \<Rightarrow> None
      | c # cs \<Rightarrow>
          if c = CHR ''-'' then map_option fneg (parse_unsigned cs)
          else if c = CHR ''+'' then parse_unsigned cs
          else parse_unsigned (c # cs))"

text \<open>
  \<^verbatim>\<open>float(v)\<close> on a cell, with the message of the exception it raises. The message of a
  ValueError quotes the string with \<^verbatim>\<open>repr\<close>; the model writes the string between
  single quotes, which is its \<^verbatim>\<open>repr\<close> when it is printable and has no quote or
  backslash.
\<close>

definition float_none_msg :: string where
  "float_none_msg = ''float() argument must be a string or a real number, not ''
     @ [CHR 0x27] @ ''NoneType'' @ [CHR 0x27]"

definition py_float :: "string option \<Rightarrow> string + pyfloat" where
  "py_float v =
     (case v of
        None \<Rightarrow> Inl float_none_msg
      | Some s \<Rightarrow>
          (case str_to_float s of
             Some f \<Rightarrow> Inr f
           | None \<Rightarrow> Inl (''could not convert string to float: '' @ [CHR 0x27] @ s @ [CHR 0x27])))"

subsection \<open>The handler\<close>

text \<open>Lines 254 to 259: the two coordinates of a row, \<open>x\<close> first.\<close>

definition row_xy :: "string \<Rightarrow> csv_row \<Rightarrow> string + pyfloat \<times> pyfloat" where
  "row_xy source_crs r =
     (if source_crs = ''WGS84'' then
        bind_exn (py_float (py_or (py_or (py_or (py_get r ''lon'') (py_get r ''longitude''))
                                         (py_get r ''x'')) (py_get r ''X''))) (\<lambda>x.
        bind_exn (py_float (py_or (py_or (py_or (py_get r ''lat'') (py_get r ''latitude''))
                                         (py_get r ''y'')) (py_get r ''Y''))) (\<lambda>y.
        Inr (x, y)))
      else
        bind_exn (py_float (py_or (py_or (py_get r ''x'') (py_get r ''X''))
                                  (py_get r ''easting''))) (\<lambda>x.
        bind_exn (py_float (py_or (py_or (py_get r ''y'') (py_get r ''Y''))
                                  (py_get r ''northing''))) (\<lambda>y.
        Inr (x, y))))"

text \<open>
  The body of the inner \<^verbatim>\<open>try\<close>: the result row, or the message of the exception the
  inner \<^verbatim>\<open>except\<close> clause catches.
\<close>

definition process_row ::
  "transformer \<Rightarrow> string \<Rightarrow> string \<Rightarrow> csv_row \<Rightarrow> string + row" where
  "process_row transformer source_crs target_crs r =
     bind_exn (row_xy source_crs r) (\<lambda>(x, y).
     bind_exn (transformer x y) (\<lambda>(tx, ty).
     let result_row = dict_of_row r;
         result_row = dict_set result_row ''transformed_x'' (VNum (py_round tx 6));
         result_row = dict_set result_row ''transformed_y'' (VNum (py_round ty 6));
         result_row = dict_set result_row ''target_crs'' (VStr target_crs)
     in Inr result_row))"

text \<open>
  The loop of lines 251 to 273, from the row numbered \<open>idx\<close> on, with the two lists
  built so far. An entry of the error list is the pair of \<^verbatim>\<open>row\<close> and \<^verbatim>\<open>error\<close>.
\<close>

fun batch_loop ::
  "transformer \<Rightarrow> string \<Rightarrow> string \<Rightarrow> nat \<Rightarrow> csv_row list \<Rightarrow> row list
     \<Rightarrow> (nat \<times> string) list \<Rightarrow> row list \<times> (nat \<times> string) list" where
  "batch_loop transformer source_crs target_crs idx [] results errors = (results, errors)"
| "batch_loop transformer source_crs target_crs idx (r # rows) results errors =
     (case process_row transformer source_crs target_crs r of
        Inr result_row \<Rightarrow>
          batch_loop transformer source_crs target_crs (Suc idx) rows
            (results @ [result_row]) errors
      | Inl e \<Rightarrow>
          batch_loop transformer source_crs target_crs (Suc idx) rows
            results (errors @ [(idx, e)]))"

record batch_result =
  br_success :: bool
  br_total_processed :: nat
  br_errors :: "(nat \<times> string) list"
  br_data :: "row list"

text \<open>
  \<^verbatim>\<open>transform_batch\<close>. \<open>file\<close> is the sequence of rows of the uploaded file, \<open>None\<close>
  when the request has no file; reading and parsing the file is outside the model.
  The two codes are what \<^verbatim>\<open>request.form.get\<close> returns.
\<close>

definition transform_batch ::
  "pyproj \<Rightarrow> csv_row list option \<Rightarrow> string option \<Rightarrow> string option
     \<Rightarrow> (nat \<times> string) + batch_result" where
  "transform_batch from_crs file source_crs_opt target_crs_opt =
     (case file of
        None \<Rightarrow> Inl (400, ''No file uploaded'')
      | Some csv_input \<Rightarrow>
          (case (source_crs_opt, target_crs_opt) of
             (Some source_crs, Some target_crs) \<Rightarrow>
               if source_crs = [] \<or> target_crs = [] then Inl (400, ''Missing CRS parameters'')
               else
                 (case (map_of CRS_DEFINITIONS source_crs, map_of CRS_DEFINITIONS target_crs) of
                    (Some source_def, Some target_def) \<Rightarrow>
                      (case from_crs source_def target_def of
                         Inl e \<Rightarrow> Inl (500, e)
                       | Inr transformer \<Rightarrow>
                           (let (results, errors) =
                                  batch_loop transformer source_crs target_crs 1 csv_input [] []
                            in Inr \<lparr>br_success = True,
                                    br_total_processed = length results,
                                    br_errors = errors,
                                    br_data = results\<rparr>))
                  | _ \<Rightarrow> Inl (400, ''Invalid CRS specified''))
           | _ \<Rightarrow> Inl (400, ''Missing CRS parameters'')))"

subsection \<open>Column resolution as the specification words it\<close>

text \<open>
  The synonyms of each axis in their order of precedence, and the first of them
  that is present with a non-empty value. A column is blank when it is absent, or
  present with \<^verbatim>\<open>None\<close> or the empty string.
\<close>

definition spec_x_columns :: "string \<Rightarrow> string list" where
  "spec_x_columns source_crs =
     (if source_crs = ''WGS84'' then [''lon'', ''longitude'', ''x'', ''X'']
      else [''x'', ''X'', ''easting''])"

definition spec_y_columns :: "string \<Rightarrow> string list" where
  "spec_y_columns source_crs =
     (if source_crs = ''WGS84'' then [''lat'', ''latitude'', ''y'', ''Y'']
      else [''y'', ''Y'', ''northing''])"

definition spec_blank :: "csv_row \<Rightarrow> string \<Rightarrow> bool" where
  "spec_blank r k =
     (map_of r k = None \<or> map_of r k = Some None \<or> map_of r k = Some (Some []))"

definition spec_first_present :: "csv_row \<Rightarrow> string list \<Rightarrow> string option" where
  "spec_first_present r ks =
     (case filter (\<lambda>k. \<not> spec_blank r k) ks of [] \<Rightarrow> None | k # _ \<Rightarrow> Some k)"

text \<open>The row without the column \<open>k\<close>.\<close>

definition drop_column :: "string \<Rightarrow> csv_row \<Rightarrow> csv_row" where
  "drop_column k r = filter (\<lambda>kv. fst kv \<noteq> k) r"

text \<open>
  Three rows under the header \<^verbatim>\<open>lon,lat\<close>; the longitude of the second one is
  not a number.
\<close>

definition example_rows :: "csv_row list" where
  "example_rows =
     [[(''lon'', Some ''-1.5''), (''lat'', Some ''5.0'')],
      [(''lon'', Some ''abc''), (''lat'', Some ''5.0'')],
      [(''lon'', Some ''-2''), (''lat'', Some ''6'')]]"

text \<open>\<^verbatim>\<open>v1 or v2 or ... or vn\<close>, grouped from the right.\<close>

fun or_chain :: "string option list \<Rightarrow> string option" where
  "or_chain [] = None"
| "or_chain [v] = v"
| "or_chain (v # w # vs) = py_or v (or_chain (w # vs))"

text \<open>
  Two rows under the header \<^verbatim>\<open>lon,longitude,lat\<close> and \<^verbatim>\<open>lon,lat\<close>: the \<^verbatim>\<open>lon\<close>
  cell of both is empty.
\<close>

definition blank_rows :: "csv_row list" where
  "blank_rows =
     [[(''lon'', Some ''''), (''longitude'', Some ''-1.5''), (''lat'', Some ''5.0'')],
      [(''lon'', Some ''''), (''lat'', Some ''5.0'')]]"

section \<open>Properties of the validator\<close>

lemma between_Fin_iff: "between (Fin a) x (Fin b) = (x \<in> Fin ` {a..b})"
  by (cases x) (auto simp: between_def)

lemma check_wgs84_report:
  "check_wgs84 x y \<lparr>v_valid = True, v_warnings = [], v_errors = []\<rparr> =
     \<lparr>v_valid = (x \<in> Fin ` {- 180..180} \<and> y \<in> Fin ` {- 90..90}),
      v_warnings = (if x \<in> Fin ` {- 4..2} then [] else [lon_ghana_msg])
                   @ (if y \<in> Fin ` {4..12} then [] else [lat_ghana_msg]),
      v_errors = (if x \<in> Fin ` {- 180..180} then [] else [lon_error_msg])
                 @ (if y \<in> Fin ` {- 90..90} then [] else [lat_error_msg])\<rparr>"
  by (simp add: check_wgs84_def between_Fin_iff add_error_def add_warning_def Let_def)

lemma check_utm_errors:
  "v_errors (check_utm x y v) = v_errors v \<and> v_valid (check_utm x y v) = v_valid v"
  by (simp add: check_utm_def add_warning_def Let_def)

lemma check_ghana_grid_errors:
  "v_errors (check_ghana_grid x y v) = v_errors v \<and> v_valid (check_ghana_grid x y v) = v_valid v"
  by (simp add: check_ghana_grid_def add_warning_def Let_def)

text \<open>
  C6. For every CRS code (a missing one included) and every numeric pair, validate
  returns a report, the report's validity flag is true exactly when its list of hard
  errors is empty, and for every code other than WGS84 the list of hard errors is
  empty and the report is valid.
\<close>

theorem validate_valid_iff_no_errors:
  "\<exists>rep. validate_coordinates crs (Some x) (Some y) = Inr rep
         \<and> v_valid rep = (v_errors rep = [])
         \<and> (crs \<noteq> Some ''WGS84'' \<longrightarrow> v_errors rep = [] \<and> v_valid rep)"
proof (cases "crs = Some ''WGS84''")
  case True
  then show ?thesis
    by (simp add: validate_coordinates_def Let_def check_wgs84_report)
next
  case False
  then show ?thesis
    by (simp add: validate_coordinates_def Let_def check_utm_errors check_ghana_grid_errors)
qed

theorem validate_valid_iff_no_errors_witness:
  "\<exists>rep. validate_coordinates (Some ''UTM_30N'') (Some (Fin 100)) (Some (Fin (- 5))) = Inr rep
         \<and> v_valid rep = (v_errors rep = [])
         \<and> Some ''UTM_30N'' \<noteq> Some ''WGS84'' \<and> v_errors rep = [] \<and> v_valid rep"
  using validate_valid_iff_no_errors [of "Some ''UTM_30N''" "Fin 100" "Fin (- 5)"]
  by simp

text \<open>
  C7. For WGS84 and a numeric pair, the report holds the longitude error exactly when
  x lies outside [-180, 180], the latitude error exactly when y lies outside [-90, 90],
  the longitude warning exactly when x lies outside [-4, 2] and the latitude warning
  exactly when y lies outside [4, 12] (NaN and the infinities lie outside every
  interval). In particular (181, 0) is invalid with the longitude error, and (180, 0)
  is valid and carries the longitude warning.
\<close>

theorem validate_wgs84_bounds:
  "validate_coordinates (Some ''WGS84'') (Some x) (Some y) =
     Inr \<lparr>v_valid = (x \<in> Fin ` {- 180..180} \<and> y \<in> Fin ` {- 90..90}),
          v_warnings = (if x \<in> Fin ` {- 4..2} then [] else [lon_ghana_msg])
                       @ (if y \<in> Fin ` {4..12} then [] else [lat_ghana_msg]),
          v_errors = (if x \<in> Fin ` {- 180..180} then [] else [lon_error_msg])
                     @ (if y \<in> Fin ` {- 90..90} then [] else [lat_error_msg])\<rparr>
   \<and> validate_coordinates (Some ''WGS84'') (Some (Fin 181)) (Some (Fin 0)) =
     Inr \<lparr>v_valid = False, v_warnings = [lon_ghana_msg, lat_ghana_msg],
          v_errors = [lon_error_msg]\<rparr>
   \<and> validate_coordinates (Some ''WGS84'') (Some (Fin 180)) (Some (Fin 0)) =
     Inr \<lparr>v_valid = True, v_warnings = [lon_ghana_msg, lat_ghana_msg], v_errors = []\<rparr>"
  by (simp add: validate_coordinates_def Let_def check_wgs84_report image_iff)

theorem validate_wgs84_bounds_witness:
  "validate_coordinates (Some ''WGS84'') (Some NaN) (Some (Fin 5)) =
     Inr \<lparr>v_valid = False, v_warnings = [lon_ghana_msg], v_errors = [lon_error_msg]\<rparr>"
  using validate_wgs84_bounds [of NaN "Fin 5"]
  by (simp add: image_iff)

section \<open>Properties of the transformation pipeline\<close>

lemma get_utm_zone_Fin:
  "get_utm_zone (Fin l) =
     (if - 6 \<le> l \<and> l < 0 then ''UTM_30N'' else if 0 \<le> l \<and> l \<le> 6 then ''UTM_31N''
      else ''UTM_30N'')"
  by (simp add: get_utm_zone_def between_def)

lemma get_utm_zone_registered: "map_of CRS_DEFINITIONS (get_utm_zone l) \<noteq> None"
  by (simp add: get_utm_zone_def CRS_DEFINITIONS_def)

lemma registered_cases:
  "map_of CRS_DEFINITIONS t = Some td \<Longrightarrow>
     t \<in> {''WGS84'', ''UTM_30N'', ''UTM_31N'', ''GHANA_GRID'', ''WEB_MERCATOR''}"
  by (auto simp: CRS_DEFINITIONS_def split: if_splits)

lemma utm_auto_unregistered: "map_of CRS_DEFINITIONS ''UTM_AUTO'' = None"
  by (simp add: CRS_DEFINITIONS_def)

lemma auto_utm_zone_registered:
  "map_of CRS_DEFINITIONS t = Some td \<Longrightarrow> auto_utm_zone s t c td = Inr (t, td)"
  using utm_auto_unregistered by (auto simp: auto_utm_zone_def)

lemma transform_coordinates_success:
  assumes "map_of CRS_DEFINITIONS s = Some sd" "map_of CRS_DEFINITIONS t = Some td"
    and "c \<noteq> []" and "from_crs sd td = Inr T"
    and "(if s = ''WGS84'' then (map_of c ''lon'', map_of c ''lat'')
          else (map_of c ''x'', map_of c ''y'')) = (Some x, Some y)"
    and "T x y = Inr (tx, ty)" and "metadata_block s t x y = Inr md"
  shows "transform_coordinates from_crs
           \<lparr>req_source_crs = Some s, req_target_crs = Some t, req_coordinates = Some c\<rparr> =
         Inr \<lparr>res_source = \<lparr>pt_crs = s, pt_x = x, pt_y = y\<rparr>,
              res_target = \<lparr>pt_crs = t, pt_x = py_round tx 6, pt_y = py_round ty 6\<rparr>,
              res_metadata = md, res_accuracy = accuracy_block s t\<rparr>"
proof -
  have "s \<noteq> []" "t \<noteq> []"
    using assms(1,2) by (auto simp: CRS_DEFINITIONS_def)
  then show ?thesis
    using assms by (simp add: transform_coordinates_def auto_utm_zone_registered)
qed

lemma transform_coordinates_Inr:
  assumes "transform_coordinates from_crs data = Inr res"
  shows "\<exists>s t c sd td T x y tx ty md.
           req_source_crs data = Some s \<and> req_target_crs data = Some t
         \<and> req_coordinates data = Some c \<and> c \<noteq> []
         \<and> map_of CRS_DEFINITIONS s = Some sd \<and> map_of CRS_DEFINITIONS t = Some td
         \<and> from_crs sd td = Inr T
         \<and> (if s = ''WGS84'' then (map_of c ''lon'', map_of c ''lat'')
             else (map_of c ''x'', map_of c ''y'')) = (Some x, Some y)
         \<and> T x y = Inr (tx, ty) \<and> metadata_block s t x y = Inr md
         \<and> res = \<lparr>res_source = \<lparr>pt_crs = s, pt_x = x, pt_y = y\<rparr>,
                   res_target = \<lparr>pt_crs = t, pt_x = py_round tx 6, pt_y = py_round ty 6\<rparr>,
                   res_metadata = md, res_accuracy = accuracy_block s t\<rparr>"
  using assms
  apply (simp add: transform_coordinates_def split: option.splits if_splits sum.splits prod.splits)
  apply (auto simp: auto_utm_zone_registered)
  done

lemma calculate_convergence_Fin:
  "calculate_convergence (Fin lat) (Fin lon) (Fin cm) =
     Inr (Fin (arctan (tan ((lon - cm) * (pi / 180)) * sin (lat * (pi / 180))) * (180 / pi)))"
  by (simp add: calculate_convergence_def bind_exn_def fsub_def)

lemma sqrt_arg_pos: "0 < 1 - 0.00669438 * (sin (r::real))\<^sup>2"
proof -
  have "(sin r)\<^sup>2 \<le> 1" by (simp add: abs_square_le_1)
  then have "0.00669438 * (sin r)\<^sup>2 \<le> 0.00669438 * 1"
    by (intro mult_left_mono) auto
  then show ?thesis by simp
qed

lemma calculate_scale_factor_Fin:
  "\<exists>k. calculate_scale_factor (Fin lat) (Fin lon) (Fin cm) (Fin k0) = Inr (Fin k)"
proof -
  have "\<not> 1 - 0.00669438 * (sin (lat * (pi / 180)))\<^sup>2 < 0"
    using sqrt_arg_pos [of "lat * (pi / 180)"] by simp
  moreover have "sqrt (1 - 0.00669438 * (sin (lat * (pi / 180)))\<^sup>2) \<noteq> 0"
    using sqrt_arg_pos [of "lat * (pi / 180)"] by simp
  ultimately show ?thesis
    by (simp add: calculate_scale_factor_def bind_exn_def fsub_def Let_def)
qed

lemma accuracy_block_same:
  "map_of CRS_DEFINITIONS X = Some d \<Longrightarrow> accuracy_block X X = generic_accuracy"
  by (drule registered_cases) (auto simp: accuracy_block_def TRANSFORMATION_ACCURACY_def)

lemma metadata_block_same: "metadata_block X X x y = Inr None"
  by (auto simp: metadata_block_def Let_def)

text \<open>
  C5, as amended. For every registered CRS X and every numeric pair p, a transform
  with source X and target X takes no shortcut: it applies the transformer pyproj
  builds for the pair (X, X) and rounds the output to 6 decimals. When that transformer
  returns p, the target pair is p rounded to 6 decimals, the source block carries p
  unchanged, there is no metadata block and the accuracy block is the generic one.
\<close>

theorem transform_same_crs_rounds:
  assumes "map_of CRS_DEFINITIONS X = Some d" and "from_crs d d = Inr T"
    and "(if X = ''WGS84'' then (map_of c ''lon'', map_of c ''lat'')
          else (map_of c ''x'', map_of c ''y'')) = (Some x, Some y)"
    and "T x y = Inr (x, y)"
  shows "transform_coordinates from_crs
           \<lparr>req_source_crs = Some X, req_target_crs = Some X, req_coordinates = Some c\<rparr> =
         Inr \<lparr>res_source = \<lparr>pt_crs = X, pt_x = x, pt_y = y\<rparr>,
              res_target = \<lparr>pt_crs = X, pt_x = py_round x 6, pt_y = py_round y 6\<rparr>,
              res_metadata = None, res_accuracy = generic_accuracy\<rparr>"
proof -
  have "c \<noteq> []" using assms(3) by (auto split: if_splits)
  then show ?thesis
    using transform_coordinates_success [where s = X and t = X and sd = d and td = d
        and c = c and from_crs = from_crs and T = T and x = x and y = y and tx = x and ty = y
        and md = None] assms
    by (simp add: metadata_block_same accuracy_block_same)
qed

theorem transform_same_crs_rounds_witness:
  "transform_coordinates noop_pyproj
     \<lparr>req_source_crs = Some ''WGS84'', req_target_crs = Some ''WGS84'',
      req_coordinates = Some [(''lon'', Fin 0.1234567), (''lat'', Fin 5)]\<rparr> =
   Inr \<lparr>res_source = \<lparr>pt_crs = ''WGS84'', pt_x = Fin 0.1234567, pt_y = Fin 5\<rparr>,
        res_target = \<lparr>pt_crs = ''WGS84'', pt_x = Fin 0.123457, pt_y = Fin 5\<rparr>,
        res_metadata = None, res_accuracy = generic_accuracy\<rparr>"
  using transform_same_crs_rounds [of "''WGS84''" "''EPSG:4326''" noop_pyproj "\<lambda>x y. Inr (x, y)"
      "[(''lon'', Fin 0.1234567), (''lat'', Fin 5)]" "Fin 0.1234567" "Fin 5"]
  by (simp add: CRS_DEFINITIONS_def noop_pyproj_def round_half_even_def Let_def)

text \<open>
  The claim as stated fails: between WGS84 and itself, with a transformer that returns
  its input, the longitude 0.1234567 comes back as 0.123457.
\<close>

theorem identity_counterexample:
  "target_pair (transform_coordinates noop_pyproj
     \<lparr>req_source_crs = Some ''WGS84'', req_target_crs = Some ''WGS84'',
      req_coordinates = Some [(''lon'', Fin 0.1234567), (''lat'', Fin 5)]\<rparr>)
     = Some (Fin 0.123457, Fin 5)
   \<and> target_pair (transform_coordinates noop_pyproj
     \<lparr>req_source_crs = Some ''WGS84'', req_target_crs = Some ''WGS84'',
      req_coordinates = Some [(''lon'', Fin 0.1234567), (''lat'', Fin 5)]\<rparr>)
     \<noteq> Some (Fin 0.1234567, Fin 5)"
  by (simp add: transform_coordinates_def CRS_DEFINITIONS_def auto_utm_zone_def startswith_def
      noop_pyproj_def metadata_block_def target_pair_def round_half_even_def Let_def)

text \<open>
  C1. The registry check of lines 154 and 155 comes before the UTM_AUTO step of lines
  157 to 162, and UTM_AUTO is not a key of the registry: a request from WGS84 to
  UTM_AUTO is answered 400, with every pyproj and every coordinates object, so the
  zone is never chosen.
\<close>

theorem utm_auto_rejected:
  "transform_coordinates from_crs
     \<lparr>req_source_crs = Some ''WGS84'', req_target_crs = Some ''UTM_AUTO'',
      req_coordinates = c\<rparr>
     \<in> {Inl (400, ''Invalid CRS specified''), Inl (400, ''Missing required parameters'')}
   \<and> transform_coordinates from_crs
     \<lparr>req_source_crs = Some ''WGS84'', req_target_crs = Some ''UTM_AUTO'',
      req_coordinates = Some [(''lon'', Fin (- 1.5)), (''lat'', Fin 5)]\<rparr>
     = Inl (400, ''Invalid CRS specified'')"
  by (simp add: transform_coordinates_def CRS_DEFINITIONS_def split: option.splits)

lemma metadata_block_Some_iff:
  "metadata_block s t x y = Inr md \<Longrightarrow>
     (md \<noteq> None) = (t \<in> {''UTM_30N'', ''UTM_31N''} \<and> s = ''WGS84'')"
  by (auto simp: metadata_block_def bind_exn_def Let_def split: if_splits sum.splits)

lemma metadata_block_SomeD:
  "metadata_block s t x y = Inr (Some md) \<Longrightarrow>
     \<exists>c k. calculate_convergence y x (if t = ''UTM_30N'' then Fin (- 3) else Fin 3) = Inr c
          \<and> calculate_scale_factor y x (if t = ''UTM_30N'' then Fin (- 3) else Fin 3)
                k0_default = Inr k
          \<and> md = \<lparr>md_zone = t, md_convergence = py_round c 6, md_scale_factor = py_round k 8\<rparr>"
  by (auto simp: metadata_block_def bind_exn_def Let_def split: if_splits sum.splits)

text \<open>
  C8. The source and target codes of a successful Transformation Result are those of
  the request, and the result has a metadata block exactly when its target CRS is
  UTM_30N or UTM_31N and its source CRS is WGS84. When present, the block names
  the target zone, and its convergence (rounded to 6 decimals) and scale factor
  (rounded to 8 decimals) are calculate_convergence and calculate_scale_factor of the
  request's own latitude and longitude and the central meridian of the zone, -3 for
  UTM_30N and 3 for UTM_31N.
\<close>

theorem metadata_from_original_point:
  assumes "transform_coordinates from_crs data = Inr res"
  shows "req_source_crs data = Some (pt_crs (res_source res))
       \<and> req_target_crs data = Some (pt_crs (res_target res))
       \<and> (res_metadata res \<noteq> None) =
           (pt_crs (res_target res) \<in> {''UTM_30N'', ''UTM_31N''}
            \<and> pt_crs (res_source res) = ''WGS84'')
       \<and> (\<forall>md. res_metadata res = Some md \<longrightarrow>
            (\<exists>coordinates lon lat c k.
                req_coordinates data = Some coordinates
              \<and> map_of coordinates ''lon'' = Some lon \<and> map_of coordinates ''lat'' = Some lat
              \<and> calculate_convergence lat lon
                   (if pt_crs (res_target res) = ''UTM_30N'' then Fin (- 3) else Fin 3) = Inr c
              \<and> calculate_scale_factor lat lon
                   (if pt_crs (res_target res) = ''UTM_30N'' then Fin (- 3) else Fin 3)
                   k0_default = Inr k
              \<and> md = \<lparr>md_zone = pt_crs (res_target res),
                       md_convergence = py_round c 6,
                       md_scale_factor = py_round k 8\<rparr>))"
proof -
  from transform_coordinates_Inr [OF assms]
  obtain s t c sd td T x y tx ty md where
    c: "req_coordinates data = Some c"
    and codes: "req_source_crs data = Some s" "req_target_crs data = Some t"
    and "map_of CRS_DEFINITIONS s = Some sd" "map_of CRS_DEFINITIONS t = Some td"
    and "from_crs sd td = Inr T"
    and xy: "(if s = ''WGS84'' then (map_of c ''lon'', map_of c ''lat'')
              else (map_of c ''x'', map_of c ''y'')) = (Some x, Some y)"
    and md: "metadata_block s t x y = Inr md"
    and res: "res = \<lparr>res_source = \<lparr>pt_crs = s, pt_x = x, pt_y = y\<rparr>,
                     res_target = \<lparr>pt_crs = t, pt_x = py_round tx 6, pt_y = py_round ty 6\<rparr>,
                     res_metadata = md, res_accuracy = accuracy_block s t\<rparr>"
    by blast
  have first: "(res_metadata res \<noteq> None) =
           (pt_crs (res_target res) \<in> {''UTM_30N'', ''UTM_31N''}
            \<and> pt_crs (res_source res) = ''WGS84'')"
    using metadata_block_Some_iff [OF md] by (simp add: res)
  have second: "\<exists>coordinates lon lat c k.
                req_coordinates data = Some coordinates
              \<and> map_of coordinates ''lon'' = Some lon \<and> map_of coordinates ''lat'' = Some lat
              \<and> calculate_convergence lat lon
                   (if pt_crs (res_target res) = ''UTM_30N'' then Fin (- 3) else Fin 3) = Inr c
              \<and> calculate_scale_factor lat lon
                   (if pt_crs (res_target res) = ''UTM_30N'' then Fin (- 3) else Fin 3)
                   k0_default = Inr k
              \<and> m = \<lparr>md_zone = pt_crs (res_target res),
                       md_convergence = py_round c 6,
                       md_scale_factor = py_round k 8\<rparr>"
    if m: "res_metadata res = Some m" for m
  proof -
    have md': "metadata_block s t x y = Inr (Some m)"
      using md m by (simp add: res)
    then have "s = ''WGS84''"
      using metadata_block_Some_iff [OF md'] by simp
    with xy have lonlat: "map_of c ''lon'' = Some x" "map_of c ''lat'' = Some y"
      by simp_all
    from metadata_block_SomeD [OF md'] obtain cv k where
      "calculate_convergence y x (if t = ''UTM_30N'' then Fin (- 3) else Fin 3) = Inr cv"
      "calculate_scale_factor y x (if t = ''UTM_30N'' then Fin (- 3) else Fin 3)
         k0_default = Inr k"
      "m = \<lparr>md_zone = t, md_convergence = py_round cv 6, md_scale_factor = py_round k 8\<rparr>"
      by blast
    with c lonlat show ?thesis
      by (simp add: res)
  qed
  from codes first second show ?thesis by (simp add: res)
qed

lemma metadata_block_example:
  "\<exists>c k. calculate_convergence (Fin 5) (Fin (- 1.5)) (Fin (- 3)) = Inr c
       \<and> calculate_scale_factor (Fin 5) (Fin (- 1.5)) (Fin (- 3)) k0_default = Inr k
       \<and> metadata_block ''WGS84'' ''UTM_30N'' (Fin (- 1.5)) (Fin 5) =
           Inr (Some \<lparr>md_zone = ''UTM_30N'', md_convergence = py_round c 6,
                      md_scale_factor = py_round k 8\<rparr>)"
proof -
  obtain k where k: "calculate_scale_factor (Fin 5) (Fin (- 1.5)) (Fin (- 3)) k0_default = Inr (Fin k)"
    using calculate_scale_factor_Fin [of 5 "- 1.5" "- 3" "0.9996"]
    by (auto simp: k0_default_def)
  show ?thesis
    apply (rule exI [of _ "Fin (arctan (tan ((- 1.5 - (- 3)) * (pi / 180)) * sin (5 * (pi / 180))) * (180 / pi))"])
    apply (rule exI [of _ "Fin k"])
    using k calculate_convergence_Fin [of 5 "- 1.5" "- 3"]
    apply (simp add: metadata_block_def bind_exn_def del: py_round.simps)
    done
qed

theorem metadata_from_original_point_witness:
  "\<exists>res. transform_coordinates noop_pyproj
       \<lparr>req_source_crs = Some ''WGS84'', req_target_crs = Some ''UTM_30N'',
        req_coordinates = Some [(''lon'', Fin (- 1.5)), (''lat'', Fin 5)]\<rparr> = Inr res
     \<and> res_metadata res \<noteq> None
     \<and> pt_crs (res_target res) = ''UTM_30N'' \<and> pt_crs (res_source res) = ''WGS84''
     \<and> (\<exists>c k. calculate_convergence (Fin 5) (Fin (- 1.5)) (Fin (- 3)) = Inr c
            \<and> calculate_scale_factor (Fin 5) (Fin (- 1.5)) (Fin (- 3)) k0_default = Inr k
            \<and> res_metadata res = Some \<lparr>md_zone = ''UTM_30N'', md_convergence = py_round c 6,
                                        md_scale_factor = py_round k 8\<rparr>)"
proof -
  let ?data = "\<lparr>req_source_crs = Some ''WGS84'', req_target_crs = Some ''UTM_30N'',
        req_coordinates = Some [(''lon'', Fin (- 1.5)), (''lat'', Fin 5)]\<rparr>"
  obtain c k where
    c: "calculate_convergence (Fin 5) (Fin (- 1.5)) (Fin (- 3)) = Inr c"
    and k: "calculate_scale_factor (Fin 5) (Fin (- 1.5)) (Fin (- 3)) k0_default = Inr k"
    and md: "metadata_block ''WGS84'' ''UTM_30N'' (Fin (- 1.5)) (Fin 5) =
           Inr (Some \<lparr>md_zone = ''UTM_30N'', md_convergence = py_round c 6,
                      md_scale_factor = py_round k 8\<rparr>)"
    using metadata_block_example by blast
  have run: "transform_coordinates noop_pyproj ?data =
     Inr \<lparr>res_source = \<lparr>pt_crs = ''WGS84'', pt_x = Fin (- 1.5), pt_y = Fin 5\<rparr>,
          res_target = \<lparr>pt_crs = ''UTM_30N'', pt_x = py_round (Fin (- 1.5)) 6,
                        pt_y = py_round (Fin 5) 6\<rparr>,
          res_metadata = Some \<lparr>md_zone = ''UTM_30N'', md_convergence = py_round c 6,
                      md_scale_factor = py_round k 8\<rparr>,
          res_accuracy = accuracy_block ''WGS84'' ''UTM_30N''\<rparr>"
    using transform_coordinates_success [where s = "''WGS84''" and t = "''UTM_30N''"
        and sd = "''EPSG:4326''" and td = "''EPSG:32630''"
        and c = "[(''lon'', Fin (- 1.5)), (''lat'', Fin 5)]" and from_crs = noop_pyproj
        and T = "\<lambda>x y. Inr (x, y)" and x = "Fin (- 1.5)" and y = "Fin 5"
        and tx = "Fin (- 1.5)" and ty = "Fin 5", OF _ _ _ _ _ _ md]
    by (simp add: CRS_DEFINITIONS_def noop_pyproj_def del: py_round.simps)
  note iff = metadata_from_original_point [OF run, THEN conjunct2, THEN conjunct2, THEN conjunct1]
  show ?thesis
    by (rule exI, rule conjI, rule run) (use iff c k in \<open>simp del: py_round.simps\<close>)
qed

text \<open>
  C9. In every successful single-point transform, the source and target codes of the
  result are those of the request, and the accuracy block is the record of
  TRANSFORMATION_ACCURACY under the key source, "_to_", target when the table has that
  key, and otherwise the generic descriptor, whose label is "1-5 meters". In
  particular a transform from UTM_30N to WEB_MERCATOR succeeds, whenever pyproj builds
  the transformer and the transformer returns a pair, and carries the generic
  descriptor.
\<close>

theorem accuracy_block_lookup:
  "(transform_coordinates from_crs data = Inr res \<longrightarrow>
      req_source_crs data = Some (pt_crs (res_source res))
    \<and> req_target_crs data = Some (pt_crs (res_target res))
    \<and> res_accuracy res =
        (case map_of TRANSFORMATION_ACCURACY
                (pt_crs (res_source res) @ ''_to_'' @ pt_crs (res_target res)) of
           Some a \<Rightarrow> a
         | None \<Rightarrow> generic_accuracy))
   \<and> acc_accuracy generic_accuracy = ''1-5 meters''
   \<and> (from_crs ''EPSG:32630'' ''EPSG:3857'' = Inr T \<and> T x y = Inr (tx, ty) \<longrightarrow>
        (\<exists>res'. transform_coordinates from_crs
                  \<lparr>req_source_crs = Some ''UTM_30N'', req_target_crs = Some ''WEB_MERCATOR'',
                   req_coordinates = Some [(''x'', x), (''y'', y)]\<rparr> = Inr res'
               \<and> res_accuracy res' = generic_accuracy))"
proof (intro conjI impI)
  assume "transform_coordinates from_crs data = Inr res"
  from transform_coordinates_Inr [OF this]
  obtain s t c sd td T x y tx ty md where
    "req_source_crs data = Some s" "req_target_crs data = Some t"
    "req_coordinates data = Some c" "from_crs sd td = Inr T" "T x y = Inr (tx, ty)"
    and res: "res = \<lparr>res_source = \<lparr>pt_crs = s, pt_x = x, pt_y = y\<rparr>,
                     res_target = \<lparr>pt_crs = t, pt_x = py_round tx 6, pt_y = py_round ty 6\<rparr>,
                     res_metadata = md, res_accuracy = accuracy_block s t\<rparr>"
    by blast
  then show "req_source_crs data = Some (pt_crs (res_source res))"
    and "req_target_crs data = Some (pt_crs (res_target res))"
    and "res_accuracy res =
        (case map_of TRANSFORMATION_ACCURACY
                (pt_crs (res_source res) @ ''_to_'' @ pt_crs (res_target res)) of
           Some a \<Rightarrow> a
         | None \<Rightarrow> generic_accuracy)"
    by (simp_all add: accuracy_block_def)
next
  show "acc_accuracy generic_accuracy = ''1-5 meters''"
    by (simp add: generic_accuracy_def)
next
  assume a: "from_crs ''EPSG:32630'' ''EPSG:3857'' = Inr T \<and> T x y = Inr (tx, ty)"
  have md: "metadata_block ''UTM_30N'' ''WEB_MERCATOR'' x y = Inr None"
    by (simp add: metadata_block_def)
  have acc: "accuracy_block ''UTM_30N'' ''WEB_MERCATOR'' = generic_accuracy"
    by (simp add: accuracy_block_def TRANSFORMATION_ACCURACY_def)
  show "\<exists>res'. transform_coordinates from_crs
                  \<lparr>req_source_crs = Some ''UTM_30N'', req_target_crs = Some ''WEB_MERCATOR'',
                   req_coordinates = Some [(''x'', x), (''y'', y)]\<rparr> = Inr res'
               \<and> res_accuracy res' = generic_accuracy"
    using transform_coordinates_success [where s = "''UTM_30N''" and t = "''WEB_MERCATOR''"
        and sd = "''EPSG:32630''" and td = "''EPSG:3857''" and c = "[(''x'', x), (''y'', y)]"
        and from_crs = from_crs and T = T and x = x and y = y and tx = tx and ty = ty
        and md = None] a md acc
    by (simp add: CRS_DEFINITIONS_def)
qed

theorem accuracy_block_lookup_witness:
  "transform_coordinates noop_pyproj
      \<lparr>req_source_crs = Some ''GHANA_GRID'', req_target_crs = Some ''WGS84'',
       req_coordinates = Some [(''x'', Fin 250000), (''y'', Fin 100000)]\<rparr> =
     Inr \<lparr>res_source = \<lparr>pt_crs = ''GHANA_GRID'', pt_x = Fin 250000, pt_y = Fin 100000\<rparr>,
          res_target = \<lparr>pt_crs = ''WGS84'', pt_x = Fin 250000, pt_y = Fin 100000\<rparr>,
          res_metadata = None,
          res_accuracy =
            \<lparr>acc_accuracy = ''1-5 meters'',
             acc_description = ''Reverse Helmert transformation. Accuracy similar to forward transformation'',
             acc_use_case = ''Publishing Ghana survey data in international standard format''\<rparr>\<rparr>
   \<and> (\<exists>res'. transform_coordinates noop_pyproj
                  \<lparr>req_source_crs = Some ''UTM_30N'', req_target_crs = Some ''WEB_MERCATOR'',
                   req_coordinates = Some [(''x'', Fin 500000), (''y'', Fin 600000)]\<rparr> = Inr res'
               \<and> res_accuracy res' = generic_accuracy)"
proof -
  let ?data = "\<lparr>req_source_crs = Some ''GHANA_GRID'', req_target_crs = Some ''WGS84'',
       req_coordinates = Some [(''x'', Fin 250000), (''y'', Fin 100000)]\<rparr>"
  let ?res = "\<lparr>res_source = \<lparr>pt_crs = ''GHANA_GRID'', pt_x = Fin 250000, pt_y = Fin 100000\<rparr>,
          res_target = \<lparr>pt_crs = ''WGS84'', pt_x = Fin 250000, pt_y = Fin 100000\<rparr>,
          res_metadata = None,
          res_accuracy = accuracy_block ''GHANA_GRID'' ''WGS84''\<rparr>"
  have run: "transform_coordinates noop_pyproj ?data = Inr ?res"
    by (simp add: transform_coordinates_def CRS_DEFINITIONS_def auto_utm_zone_def
        startswith_def noop_pyproj_def metadata_block_def round_half_even_def Let_def)
  note inst = accuracy_block_lookup [of noop_pyproj ?data ?res "\<lambda>x y. Inr (x, y)"
      "Fin 500000" "Fin 600000" "Fin 500000" "Fin 600000"]
  from inst run have
    "res_accuracy ?res = (case map_of TRANSFORMATION_ACCURACY (''GHANA_GRID'' @ ''_to_'' @ ''WGS84'') of
           Some a \<Rightarrow> a | None \<Rightarrow> generic_accuracy)"
    by simp
  then have acc: "accuracy_block ''GHANA_GRID'' ''WGS84'' =
            \<lparr>acc_accuracy = ''1-5 meters'',
             acc_description = ''Reverse Helmert transformation. Accuracy similar to forward transformation'',
             acc_use_case = ''Publishing Ghana survey data in international standard format''\<rparr>"
    by (simp add: TRANSFORMATION_ACCURACY_def)
  from inst have second: "\<exists>res'. transform_coordinates noop_pyproj
                  \<lparr>req_source_crs = Some ''UTM_30N'', req_target_crs = Some ''WEB_MERCATOR'',
                   req_coordinates = Some [(''x'', Fin 500000), (''y'', Fin 600000)]\<rparr> = Inr res'
               \<and> res_accuracy res' = generic_accuracy"
    by (simp add: noop_pyproj_def)
  from run acc second show ?thesis by simp
qed

text \<open>
  C2, as amended. The handler has no finiteness check. For registered codes, when the
  transformer returns a pair with a NaN or infinite component and the metadata block
  (computed only from WGS84 to a UTM zone) does not raise, the response is a
  successful Transformation Result whose target holds the transformer's output rounded
  to 6 decimals, and rounding leaves a NaN or infinite component as it is.
\<close>

theorem nonfinite_result_returned:
  assumes "map_of CRS_DEFINITIONS s = Some sd" and "map_of CRS_DEFINITIONS t = Some td"
    and "from_crs sd td = Inr T"
    and "(if s = ''WGS84'' then (map_of c ''lon'', map_of c ''lat'')
          else (map_of c ''x'', map_of c ''y'')) = (Some x, Some y)"
    and "T x y = Inr (tx, ty)"
    and "\<not> is_finite tx \<or> \<not> is_finite ty"
    and "metadata_block s t x y = Inr md"
  shows "\<exists>res. transform_coordinates from_crs
                 \<lparr>req_source_crs = Some s, req_target_crs = Some t,
                  req_coordinates = Some c\<rparr> = Inr res
              \<and> res_target res = \<lparr>pt_crs = t, pt_x = py_round tx 6, pt_y = py_round ty 6\<rparr>
              \<and> (\<not> is_finite tx \<longrightarrow> pt_x (res_target res) = tx)
              \<and> (\<not> is_finite ty \<longrightarrow> pt_y (res_target res) = ty)
              \<and> (\<not> is_finite (pt_x (res_target res)) \<or> \<not> is_finite (pt_y (res_target res)))"
proof -
  have "c \<noteq> []" using assms(4) by (auto split: if_splits)
  moreover have "\<not> is_finite v \<Longrightarrow> py_round v n = v" for v n
    by (cases v) simp_all
  ultimately show ?thesis
    using transform_coordinates_success [where s = s and t = t and sd = sd and td = td
        and c = c and from_crs = from_crs and T = T and x = x and y = y and tx = tx and ty = ty
        and md = md] assms
    by auto
qed

theorem nonfinite_result_returned_witness:
  "transform_coordinates inf_pyproj
      \<lparr>req_source_crs = Some ''WGS84'', req_target_crs = Some ''WEB_MERCATOR'',
       req_coordinates = Some [(''lon'', Fin 0), (''lat'', Fin 90)]\<rparr> =
     Inr \<lparr>res_source = \<lparr>pt_crs = ''WGS84'', pt_x = Fin 0, pt_y = Fin 90\<rparr>,
          res_target = \<lparr>pt_crs = ''WEB_MERCATOR'', pt_x = PosInf, pt_y = PosInf\<rparr>,
          res_metadata = None, res_accuracy = generic_accuracy\<rparr>"
proof -
  have run: "transform_coordinates inf_pyproj
      \<lparr>req_source_crs = Some ''WGS84'', req_target_crs = Some ''WEB_MERCATOR'',
       req_coordinates = Some [(''lon'', Fin 0), (''lat'', Fin 90)]\<rparr> =
     Inr \<lparr>res_source = \<lparr>pt_crs = ''WGS84'', pt_x = Fin 0, pt_y = Fin 90\<rparr>,
          res_target = \<lparr>pt_crs = ''WEB_MERCATOR'', pt_x = PosInf, pt_y = PosInf\<rparr>,
          res_metadata = None, res_accuracy = accuracy_block ''WGS84'' ''WEB_MERCATOR''\<rparr>"
    using nonfinite_result_returned [where s = "''WGS84''" and t = "''WEB_MERCATOR''"
        and sd = "''EPSG:4326''" and td = "''EPSG:3857''" and from_crs = inf_pyproj
        and T = "\<lambda>x y. Inr (PosInf, PosInf)" and x = "Fin 0" and y = "Fin 90"
        and c = "[(''lon'', Fin 0), (''lat'', Fin 90)]"
        and tx = PosInf and ty = PosInf and md = None]
    by (auto simp: CRS_DEFINITIONS_def inf_pyproj_def metadata_block_def
        transform_coordinates_def auto_utm_zone_def startswith_def)
  then show ?thesis
    by (simp add: accuracy_block_def TRANSFORMATION_ACCURACY_def)
qed

text \<open>
  The claim as stated fails: when the transformer returns infinity on both axes, the
  response is a successful result with an infinite target pair, not an error.
\<close>

theorem kernel_failure_counterexample:
  "target_pair (transform_coordinates inf_pyproj
      \<lparr>req_source_crs = Some ''WGS84'', req_target_crs = Some ''WEB_MERCATOR'',
       req_coordinates = Some [(''lon'', Fin 0), (''lat'', Fin 90)]\<rparr>) = Some (PosInf, PosInf)
   \<and> \<not> isl (transform_coordinates inf_pyproj
      \<lparr>req_source_crs = Some ''WGS84'', req_target_crs = Some ''WEB_MERCATOR'',
       req_coordinates = Some [(''lon'', Fin 0), (''lat'', Fin 90)]\<rparr>)"
  by (simp add: transform_coordinates_def CRS_DEFINITIONS_def auto_utm_zone_def startswith_def
      inf_pyproj_def metadata_block_def target_pair_def)

section \<open>Properties of the batch processor\<close>

lemma batch_loop_eq:
  "batch_loop tr s t idx rows results errors =
     (results @ concat (map (\<lambda>r. case process_row tr s t r of Inr v \<Rightarrow> [v] | Inl e \<Rightarrow> []) rows),
      errors @ concat (map (\<lambda>i. case process_row tr s t (rows ! i) of
                                    Inl e \<Rightarrow> [(idx + i, e)] | Inr v \<Rightarrow> [])
                           [0..<length rows]))"
proof (induction rows arbitrary: idx results errors)
  case Nil
  show ?case by simp
next
  case (Cons r rows)
  have upt: "[0..<Suc (length rows)] = 0 # map Suc [0..<length rows]"
    by (simp add: upt_conv_Cons map_Suc_upt del: upt_Suc)
  show ?case
    by (cases "process_row tr s t r")
      (simp_all add: Cons.IH upt comp_def del: upt_Suc cong: sum.case_cong)
qed

lemma batch_loop_length:
  "batch_loop tr s t idx rows results errors = (rs, es) \<Longrightarrow>
     length rs + length es = length results + length errors + length rows"
  by (induction rows arbitrary: idx results errors) (auto split: sum.splits)

lemma successes_filter:
  "concat (map (\<lambda>r. case process_row tr s t r of Inr v \<Rightarrow> [v] | Inl e \<Rightarrow> []) rows) =
     map (\<lambda>r. projr (process_row tr s t r)) (filter (\<lambda>r. \<not> isl (process_row tr s t r)) rows)"
  by (induction rows) (auto split: sum.splits)

lemma map_of_dict_set:
  "map_of (dict_set r k v) k' = (if k' = k then Some v else map_of r k')"
  by (induction r) auto

lemma map_of_dict_of_row:
  "map_of (dict_of_row r) k = map_option (\<lambda>v. case v of None \<Rightarrow> VNone | Some s \<Rightarrow> VStr s) (map_of r k)"
  by (induction r) (auto simp: dict_of_row_def)

lemma process_row_keeps_columns:
  assumes "process_row tr s t r = Inr v"
    and "k \<notin> {''transformed_x'', ''transformed_y'', ''target_crs''}"
  shows "map_of v k = map_of (dict_of_row r) k"
  using assms
  by (auto simp: process_row_def bind_exn_def Let_def map_of_dict_set split: sum.splits prod.splits)

lemma transform_batch_registered:
  assumes "map_of CRS_DEFINITIONS s = Some sd" and "map_of CRS_DEFINITIONS t = Some td"
    and "from_crs sd td = Inr tr"
  shows "transform_batch from_crs (Some rows) (Some s) (Some t) =
     Inr \<lparr>br_success = True,
          br_total_processed =
            length (concat (map (\<lambda>r. case process_row tr s t r of Inr v \<Rightarrow> [v] | Inl e \<Rightarrow> []) rows)),
          br_errors = concat (map (\<lambda>i. case process_row tr s t (rows ! i) of
                                    Inl e \<Rightarrow> [(Suc i, e)] | Inr v \<Rightarrow> [])
                           [0..<length rows]),
          br_data = concat (map (\<lambda>r. case process_row tr s t r of Inr v \<Rightarrow> [v] | Inl e \<Rightarrow> []) rows)\<rparr>"
proof -
  have "s \<noteq> []" "t \<noteq> []"
    using assms(1,2) by (auto simp: CRS_DEFINITIONS_def)
  then show ?thesis
    using assms by (simp add: transform_batch_def batch_loop_eq cong: sum.case_cong)
qed

text \<open>
  C4. For registered codes, once pyproj has built the transformer, every sequence of
  rows gives a successful BatchResult in which: the success list holds, in the order
  of the rows, the result of each row whose processing did not fail; the error list
  holds, for each row whose processing failed, its 1-based index and the message, in
  the order of the rows; so every row is in exactly one list, the lengths add up to
  the number of rows, and a failing row does not stop the rows after it. The count
  reported is the length of the success list. The j-th success agrees with the j-th
  row that did not fail on every column but the three the handler writes.
\<close>

theorem batch_rows_partitioned:
  assumes "map_of CRS_DEFINITIONS s = Some sd" and "map_of CRS_DEFINITIONS t = Some td"
    and "from_crs sd td = Inr tr"
  shows "\<exists>res. transform_batch from_crs (Some rows) (Some s) (Some t) = Inr res
     \<and> br_data res =
         concat (map (\<lambda>r. case process_row tr s t r of Inr v \<Rightarrow> [v] | Inl e \<Rightarrow> []) rows)
     \<and> br_errors res =
         concat (map (\<lambda>i. case process_row tr s t (rows ! i) of
                            Inl e \<Rightarrow> [(Suc i, e)] | Inr v \<Rightarrow> [])
                     [0..<length rows])
     \<and> length (br_data res) + length (br_errors res) = length rows
     \<and> br_total_processed res = length (br_data res) \<and> br_success res
     \<and> (let ok = filter (\<lambda>r. \<not> isl (process_row tr s t r)) rows in
          length (br_data res) = length ok
        \<and> (\<forall>j < length ok. \<forall>k. k \<notin> {''transformed_x'', ''transformed_y'', ''target_crs''} \<longrightarrow>
              map_of (br_data res ! j) k = map_of (dict_of_row (ok ! j)) k))"
proof -
  let ?succ = "concat (map (\<lambda>r. case process_row tr s t r of Inr v \<Rightarrow> [v] | Inl e \<Rightarrow> []) rows)"
  let ?errs = "concat (map (\<lambda>i. case process_row tr s t (rows ! i) of
                            Inl e \<Rightarrow> [(Suc i, e)] | Inr v \<Rightarrow> [])
                     [0..<length rows])"
  let ?ok = "filter (\<lambda>r. \<not> isl (process_row tr s t r)) rows"
  note run = transform_batch_registered [where from_crs = from_crs and tr = tr and rows = rows,
      OF assms]
  have "batch_loop tr s t 1 rows [] [] = (?succ, ?errs)"
    by (simp add: batch_loop_eq cong: sum.case_cong)
  from batch_loop_length [OF this] have len: "length ?succ + length ?errs = length rows"
    by simp
  have succ: "?succ = map (\<lambda>r. projr (process_row tr s t r)) ?ok"
    by (rule successes_filter)
  have keep: "map_of (?succ ! j) k = map_of (dict_of_row (?ok ! j)) k"
    if "j < length ?ok" "k \<notin> {''transformed_x'', ''transformed_y'', ''target_crs''}" for j k
  proof -
    have "?ok ! j \<in> set ?ok" using that(1) by (rule nth_mem)
    then have "\<not> isl (process_row tr s t (?ok ! j))" by simp
    then obtain v where v: "process_row tr s t (?ok ! j) = Inr v"
      by (cases "process_row tr s t (?ok ! j)") auto
    have "?succ ! j = v" using that(1) v by (simp only: succ nth_map) simp
    with process_row_keeps_columns [OF v that(2)] show ?thesis by simp
  qed
  have "length ?succ = length ?ok" by (simp only: succ length_map)
  with run len keep show ?thesis
    by (simp add: Let_def)
qed

lemmas float_parse_defs =
  str_to_float_def strip_def is_space_def parse_unsigned_def to_lower_def parse_number_def
  digitpart_def is_digit_def digit_val_def parse_exponent_def scale10_def to_float_def

lemma float_examples:
  "py_float (Some ''-1.5'') = Inr (Fin (- 1.5))"
  "py_float (Some ''5.0'') = Inr (Fin 5)"
  "py_float (Some ''-2'') = Inr (Fin (- 2))"
  "py_float (Some ''6'') = Inr (Fin 6)"
  "py_float (Some ''abc'') = Inl (''could not convert string to float: '' @ [CHR 0x27] @ ''abc'' @ [CHR 0x27])"
  by (simp_all add: py_float_def float_parse_defs)

lemma process_row_examples:
  "process_row (\<lambda>x y. Inr (x, y)) ''WGS84'' ''UTM_30N'' [(''lon'', Some ''-1.5''), (''lat'', Some ''5.0'')] =
     Inr [(''lon'', VStr ''-1.5''), (''lat'', VStr ''5.0''), (''transformed_x'', VNum (Fin (- 1.5))),
          (''transformed_y'', VNum (Fin 5)), (''target_crs'', VStr ''UTM_30N'')]"
  "process_row (\<lambda>x y. Inr (x, y)) ''WGS84'' ''UTM_30N'' [(''lon'', Some ''abc''), (''lat'', Some ''5.0'')] =
     Inl (''could not convert string to float: '' @ [CHR 0x27] @ ''abc'' @ [CHR 0x27])"
  "process_row (\<lambda>x y. Inr (x, y)) ''WGS84'' ''UTM_30N'' [(''lon'', Some ''-2''), (''lat'', Some ''6'')] =
     Inr [(''lon'', VStr ''-2''), (''lat'', VStr ''6''), (''transformed_x'', VNum (Fin (- 2))),
          (''transformed_y'', VNum (Fin 6)), (''target_crs'', VStr ''UTM_30N'')]"
  by (simp_all add: process_row_def row_xy_def py_get_def py_or_def bind_exn_def float_examples
      round_half_even_def Let_def dict_of_row_def)

theorem batch_rows_partitioned_witness:
  "transform_batch noop_pyproj (Some example_rows) (Some ''WGS84'') (Some ''UTM_30N'') =
     Inr \<lparr>br_success = True, br_total_processed = 2,
          br_errors = [(2, ''could not convert string to float: '' @ [CHR 0x27] @ ''abc'' @ [CHR 0x27])],
          br_data =
            [[(''lon'', VStr ''-1.5''), (''lat'', VStr ''5.0''), (''transformed_x'', VNum (Fin (- 1.5))),
              (''transformed_y'', VNum (Fin 5)), (''target_crs'', VStr ''UTM_30N'')],
             [(''lon'', VStr ''-2''), (''lat'', VStr ''6''), (''transformed_x'', VNum (Fin (- 2))),
              (''transformed_y'', VNum (Fin 6)), (''target_crs'', VStr ''UTM_30N'')]]\<rparr>"
proof -
  have reg: "map_of CRS_DEFINITIONS ''WGS84'' = Some ''EPSG:4326''"
    "map_of CRS_DEFINITIONS ''UTM_30N'' = Some ''EPSG:32630''"
    by (simp_all add: CRS_DEFINITIONS_def)
  have tr: "noop_pyproj ''EPSG:4326'' ''EPSG:32630'' = Inr (\<lambda>x y. Inr (x, y))"
    by (simp add: noop_pyproj_def)
  from batch_rows_partitioned [where from_crs = noop_pyproj and rows = example_rows,
      OF reg tr]
  obtain res where run: "transform_batch noop_pyproj (Some example_rows) (Some ''WGS84'')
        (Some ''UTM_30N'') = Inr res"
    and data: "br_data res =
         concat (map (\<lambda>r. case process_row (\<lambda>x y. Inr (x, y)) ''WGS84'' ''UTM_30N'' r of
                            Inr v \<Rightarrow> [v] | Inl e \<Rightarrow> []) example_rows)"
    and errs: "br_errors res =
         concat (map (\<lambda>i. case process_row (\<lambda>x y. Inr (x, y)) ''WGS84'' ''UTM_30N'' (example_rows ! i) of
                            Inl e \<Rightarrow> [(Suc i, e)] | Inr v \<Rightarrow> [])
                     [0..<length example_rows])"
    and tot: "br_total_processed res = length (br_data res)" and ok: "br_success res"
    by blast
  have upt3: "[0..<3] = [0, 1, 2]" by (simp add: upt_rec)
  have data': "br_data res =
            [[(''lon'', VStr ''-1.5''), (''lat'', VStr ''5.0''), (''transformed_x'', VNum (Fin (- 1.5))),
              (''transformed_y'', VNum (Fin 5)), (''target_crs'', VStr ''UTM_30N'')],
             [(''lon'', VStr ''-2''), (''lat'', VStr ''6''), (''transformed_x'', VNum (Fin (- 2))),
              (''transformed_y'', VNum (Fin 6)), (''target_crs'', VStr ''UTM_30N'')]]"
    unfolding data example_rows_def by (simp add: process_row_examples)
  have errs': "br_errors res =
      [(2, ''could not convert string to float: '' @ [CHR 0x27] @ ''abc'' @ [CHR 0x27])]"
    unfolding errs example_rows_def by (simp add: process_row_examples upt3)
  show ?thesis
    unfolding run using data' errs' tot ok by (cases res) simp
qed

text \<open>
  C3, as amended. For registered codes and no rows, once pyproj has built the
  transformer, transform_batch returns a successful BatchResult with no successes and
  no errors. The handler has no error for an empty input.
\<close>

theorem empty_batch_succeeds:
  assumes "map_of CRS_DEFINITIONS s = Some sd" and "map_of CRS_DEFINITIONS t = Some td"
    and "from_crs sd td = Inr tr"
  shows "transform_batch from_crs (Some []) (Some s) (Some t) =
     Inr \<lparr>br_success = True, br_total_processed = 0, br_errors = [], br_data = []\<rparr>"
  using transform_batch_registered [where from_crs = from_crs and tr = tr and rows = "[]",
      OF assms]
  by simp

theorem empty_batch_succeeds_witness:
  "transform_batch noop_pyproj (Some []) (Some ''GHANA_GRID'') (Some ''WGS84'') =
     Inr \<lparr>br_success = True, br_total_processed = 0, br_errors = [], br_data = []\<rparr>"
  using empty_batch_succeeds [where from_crs = noop_pyproj and s = "''GHANA_GRID''"
      and t = "''WGS84''" and tr = "\<lambda>x y. Inr (x, y)"]
  by (simp add: CRS_DEFINITIONS_def noop_pyproj_def)

text \<open>
  The claim as stated fails: a batch of zero rows from WGS84 to UTM_30N is answered
  with a successful, empty BatchResult, not an error.
\<close>

theorem no_rows_counterexample:
  "transform_batch noop_pyproj (Some []) (Some ''WGS84'') (Some ''UTM_30N'') =
     Inr \<lparr>br_success = True, br_total_processed = 0, br_errors = [], br_data = []\<rparr>
   \<and> \<not> isl (transform_batch noop_pyproj (Some []) (Some ''WGS84'') (Some ''UTM_30N''))"
  by (simp add: transform_batch_def CRS_DEFINITIONS_def noop_pyproj_def)

subsection \<open>Column resolution\<close>

lemma py_or_assoc: "py_or (py_or a b) c = py_or a (py_or b c)"
  by (simp add: py_or_def)

lemma row_xy_chain:
  "row_xy s r =
     bind_exn (py_float (or_chain (map (py_get r) (spec_x_columns s)))) (\<lambda>x.
     bind_exn (py_float (or_chain (map (py_get r) (spec_y_columns s)))) (\<lambda>y. Inr (x, y)))"
  by (simp add: row_xy_def spec_x_columns_def spec_y_columns_def py_or_assoc)

lemma spec_blank_iff: "spec_blank r k = (\<not> truthy (py_get r k))"
  by (cases "map_of r k"; cases "the (map_of r k)") (auto simp: spec_blank_def py_get_def)

lemma py_float_falsy: "\<not> truthy v \<Longrightarrow> isl (py_float v)"
  by (cases v) (auto simp: py_float_def str_to_float_def strip_def)

lemma or_chain_falsy:
  "list_all (\<lambda>v. \<not> truthy v) vs \<Longrightarrow> \<not> truthy (or_chain vs)"
  by (induction vs rule: or_chain.induct) (auto simp: py_or_def)

lemma or_chain_truthy:
  "List.find truthy vs = Some v \<Longrightarrow> or_chain vs = v"
  by (induction vs rule: or_chain.induct) (auto simp: py_or_def split: if_splits)

lemma find_None_falsy: "List.find truthy vs = None \<Longrightarrow> \<not> truthy (or_chain vs)"
  by (rule or_chain_falsy) (simp add: find_None_iff list_all_iff)

lemma py_float_or_chain:
  "(py_float (or_chain vs) = Inr x) = (\<exists>v. List.find truthy vs = Some v \<and> py_float v = Inr x)"
proof (cases "List.find truthy vs")
  case None
  from py_float_falsy [OF find_None_falsy [OF None]] show ?thesis
    using None by (auto simp: isl_def)
next
  case (Some v)
  then show ?thesis by (simp add: or_chain_truthy)
qed

lemma map_of_drop_column:
  "map_of (drop_column k r) k' = (if k' = k then None else map_of r k')"
  by (induction r) (auto simp: drop_column_def)

lemma py_get_drop_column:
  "py_get (drop_column k r) k' = (if k' = k then None else py_get r k')"
  by (simp add: py_get_def map_of_drop_column)

lemma find_drop_column:
  "spec_blank r k \<Longrightarrow>
     List.find truthy (map (py_get (drop_column k r)) ks) = List.find truthy (map (py_get r) ks)"
  by (induction ks) (auto simp: py_get_drop_column spec_blank_iff)

lemma row_xy_Inr_iff:
  "(row_xy s r = Inr p) =
     (\<exists>vx vy x y. List.find truthy (map (py_get r) (spec_x_columns s)) = Some vx
                \<and> List.find truthy (map (py_get r) (spec_y_columns s)) = Some vy
                \<and> py_float vx = Inr x \<and> py_float vy = Inr y \<and> p = (x, y))"
proof -
  have "(row_xy s r = Inr p) =
     (\<exists>x y. py_float (or_chain (map (py_get r) (spec_x_columns s))) = Inr x
           \<and> py_float (or_chain (map (py_get r) (spec_y_columns s))) = Inr y \<and> p = (x, y))"
    by (auto simp: row_xy_chain bind_exn_def split: sum.splits)
  then show ?thesis
    by (simp only: py_float_or_chain) blast
qed

lemma row_xy_drop_blank:
  "spec_blank r k \<Longrightarrow> (row_xy s (drop_column k r) = Inr p) = (row_xy s r = Inr p)"
  by (simp only: row_xy_Inr_iff find_drop_column)

lemma process_row_isl: "isl (process_row tr s t r) = (\<forall>p. row_xy s r = Inr p \<longrightarrow> isl (tr (fst p) (snd p)))"
  by (cases "row_xy s r")
    (auto simp: process_row_def bind_exn_def Let_def split: sum.splits prod.splits)

lemma first_present_find:
  "spec_first_present r ks = Some k \<Longrightarrow> List.find truthy (map (py_get r) ks) = Some (py_get r k)"
  by (induction ks) (auto simp: spec_first_present_def spec_blank_iff split: if_splits)

lemma first_present_None:
  "spec_first_present r ks = None \<Longrightarrow> List.find truthy (map (py_get r) ks) = None"
  by (induction ks) (auto simp: spec_first_present_def spec_blank_iff split: if_splits list.splits)

lemma first_present_row_xy:
  assumes "spec_first_present r (spec_x_columns s) = Some kx"
    and "spec_first_present r (spec_y_columns s) = Some ky"
  shows "row_xy s r =
     bind_exn (py_float (py_get r kx)) (\<lambda>x. bind_exn (py_float (py_get r ky)) (\<lambda>y. Inr (x, y)))"
  by (simp add: row_xy_chain or_chain_truthy [OF first_present_find [OF assms(1)]]
      or_chain_truthy [OF first_present_find [OF assms(2)]])

lemma all_blank_fails:
  assumes "spec_first_present r (spec_x_columns s) = None
         \<or> spec_first_present r (spec_y_columns s) = None"
  shows "isl (process_row tr s t r)"
proof -
  have "row_xy s r \<noteq> Inr p" for p
    using assms first_present_None by (fastforce simp: row_xy_Inr_iff)
  then show ?thesis by (simp add: process_row_isl)
qed

lemma failing_row_in_batch:
  assumes "map_of CRS_DEFINITIONS s = Some sd" and "map_of CRS_DEFINITIONS t = Some td"
    and "from_crs sd td = Inr tr" and "i < length rows"
    and "isl (process_row tr s t (rows ! i))"
  shows "\<exists>res res'. transform_batch from_crs (Some rows) (Some s) (Some t) = Inr res
            \<and> Suc i \<in> fst ` set (br_errors res)
            \<and> transform_batch from_crs (Some (take i rows @ drop (Suc i) rows)) (Some s) (Some t)
                = Inr res'
            \<and> br_data res = br_data res'"
proof -
  let ?f = "\<lambda>r. case process_row tr s t r of Inr v \<Rightarrow> [v] | Inl e \<Rightarrow> []"
  note run = transform_batch_registered [where from_crs = from_crs and tr = tr, OF assms(1-3)]
  obtain e where e: "process_row tr s t (rows ! i) = Inl e"
    using assms(5) by (auto simp: isl_def)
  have "(Suc i, e) \<in> set (concat (map (\<lambda>i. case process_row tr s t (rows ! i) of
                                    Inl e \<Rightarrow> [(Suc i, e)] | Inr v \<Rightarrow> [])
                           [0..<length rows]))"
    using assms(4) e by (auto intro!: bexI [of _ i])
  then have mem: "Suc i \<in> fst ` set (concat (map (\<lambda>i. case process_row tr s t (rows ! i) of
                                    Inl e \<Rightarrow> [(Suc i, e)] | Inr v \<Rightarrow> [])
                           [0..<length rows]))"
    by (rule image_eqI [rotated]) simp
  have "rows = take i rows @ rows ! i # drop (Suc i) rows"
    using assms(4) by (rule id_take_nth_drop)
  then have "concat (map ?f rows) = concat (map ?f (take i rows @ rows ! i # drop (Suc i) rows))"
    by simp
  also have "\<dots> = concat (map ?f (take i rows @ drop (Suc i) rows))"
    by (simp add: e)
  finally have data: "concat (map ?f rows) = concat (map ?f (take i rows @ drop (Suc i) rows))" .
  show ?thesis
    unfolding run using mem data by simp
qed

text \<open>
  C10. In the column resolution of a batch row, a column that is absent and a column
  that holds the empty string (or \<^verbatim>\<open>None\<close>) are treated alike. Removing a blank column
  from a row changes neither the pair of coordinates the row resolves to nor whether it
  resolves. When each axis has a synonym that is present and not empty, the coordinate
  is read from the first such synonym in the order of precedence, so an empty
  \<^verbatim>\<open>lon\<close> cell defers to \<^verbatim>\<open>longitude\<close>. A row in which every synonym of an axis
  is blank fails, and in a batch it is recorded in the error list under its 1-based
  index and adds nothing to the success list.
\<close>

theorem blank_column_falls_through:
  "(spec_blank r k \<longrightarrow>
      (\<forall>p. (row_xy s (drop_column k r) = Inr p) = (row_xy s r = Inr p)))
   \<and> (spec_first_present r (spec_x_columns s) = Some kx
       \<and> spec_first_present r (spec_y_columns s) = Some ky \<longrightarrow>
        row_xy s r =
          bind_exn (py_float (py_get r kx)) (\<lambda>x.
          bind_exn (py_float (py_get r ky)) (\<lambda>y. Inr (x, y))))
   \<and> (spec_first_present r (spec_x_columns s) = None
       \<or> spec_first_present r (spec_y_columns s) = None \<longrightarrow>
        isl (process_row tr s t r))
   \<and> (map_of CRS_DEFINITIONS s = Some sd \<and> map_of CRS_DEFINITIONS t = Some td
       \<and> from_crs sd td = Inr tr \<and> i < length rows
       \<and> (spec_first_present (rows ! i) (spec_x_columns s) = None
          \<or> spec_first_present (rows ! i) (spec_y_columns s) = None) \<longrightarrow>
        (\<exists>res res'. transform_batch from_crs (Some rows) (Some s) (Some t) = Inr res
            \<and> Suc i \<in> fst ` set (br_errors res)
            \<and> transform_batch from_crs (Some (take i rows @ drop (Suc i) rows)) (Some s) (Some t)
                = Inr res'
            \<and> br_data res = br_data res'))"
proof (intro conjI impI allI)
  fix p assume "spec_blank r k"
  then show "(row_xy s (drop_column k r) = Inr p) = (row_xy s r = Inr p)"
    by (rule row_xy_drop_blank)
next
  assume "spec_first_present r (spec_x_columns s) = Some kx
       \<and> spec_first_present r (spec_y_columns s) = Some ky"
  then show "row_xy s r =
          bind_exn (py_float (py_get r kx)) (\<lambda>x.
          bind_exn (py_float (py_get r ky)) (\<lambda>y. Inr (x, y)))"
    by (simp add: first_present_row_xy)
next
  assume "spec_first_present r (spec_x_columns s) = None
       \<or> spec_first_present r (spec_y_columns s) = None"
  then show "isl (process_row tr s t r)"
    by (rule all_blank_fails)
next
  assume a: "map_of CRS_DEFINITIONS s = Some sd \<and> map_of CRS_DEFINITIONS t = Some td
       \<and> from_crs sd td = Inr tr \<and> i < length rows
       \<and> (spec_first_present (rows ! i) (spec_x_columns s) = None
          \<or> spec_first_present (rows ! i) (spec_y_columns s) = None)"
  then have "isl (process_row tr s t (rows ! i))"
    by (intro all_blank_fails) simp
  with a failing_row_in_batch [where from_crs = from_crs and sd = sd and td = td and tr = tr
      and rows = rows and i = i and s = s and t = t]
  show "\<exists>res res'. transform_batch from_crs (Some rows) (Some s) (Some t) = Inr res
            \<and> Suc i \<in> fst ` set (br_errors res)
            \<and> transform_batch from_crs (Some (take i rows @ drop (Suc i) rows)) (Some s) (Some t)
                = Inr res'
            \<and> br_data res = br_data res'"
    by blast
qed

theorem blank_column_falls_through_witness:
  "spec_blank (blank_rows ! 0) ''lon''
   \<and> spec_first_present (blank_rows ! 0) (spec_x_columns ''WGS84'') = Some ''longitude''
   \<and> spec_first_present (blank_rows ! 0) (spec_y_columns ''WGS84'') = Some ''lat''
   \<and> row_xy ''WGS84'' (blank_rows ! 0) = Inr (Fin (- 1.5), Fin 5)
   \<and> row_xy ''WGS84'' (drop_column ''lon'' (blank_rows ! 0)) = Inr (Fin (- 1.5), Fin 5)
   \<and> spec_first_present (blank_rows ! 1) (spec_x_columns ''WGS84'') = None
   \<and> isl (process_row (\<lambda>x y. Inr (x, y)) ''WGS84'' ''UTM_30N'' (blank_rows ! 1))
   \<and> (\<exists>res res'. transform_batch noop_pyproj (Some blank_rows) (Some ''WGS84'') (Some ''UTM_30N'')
                    = Inr res
            \<and> 2 \<in> fst ` set (br_errors res)
            \<and> transform_batch noop_pyproj (Some [blank_rows ! 0]) (Some ''WGS84'') (Some ''UTM_30N'')
                = Inr res'
            \<and> br_data res = br_data res')"
proof -
  let ?r0 = "blank_rows ! 0" and ?r1 = "blank_rows ! 1"
  have blank: "spec_blank ?r0 ''lon''"
    by (simp add: blank_rows_def spec_blank_def)
  have fx: "spec_first_present ?r0 (spec_x_columns ''WGS84'') = Some ''longitude''"
    and fy: "spec_first_present ?r0 (spec_y_columns ''WGS84'') = Some ''lat''"
    and fn: "spec_first_present ?r1 (spec_x_columns ''WGS84'') = None"
    by (simp_all add: blank_rows_def spec_first_present_def spec_x_columns_def
        spec_y_columns_def spec_blank_def)
  note first = blank_column_falls_through [where r = ?r0 and k = "''lon''" and s = "''WGS84''"
      and kx = "''longitude''" and ky = "''lat''" and rows = "[]" and i = 0]
  note second = blank_column_falls_through [where r = ?r1 and s = "''WGS84''"
      and t = "''UTM_30N''" and tr = "\<lambda>x y. Inr (x, y)" and from_crs = noop_pyproj
      and sd = "''EPSG:4326''" and td = "''EPSG:32630''" and rows = blank_rows and i = 1]
  have "row_xy ''WGS84'' ?r0 =
          bind_exn (py_float (py_get ?r0 ''longitude'')) (\<lambda>x.
          bind_exn (py_float (py_get ?r0 ''lat'')) (\<lambda>y. Inr (x, y)))"
    using first fx fy by blast
  then have xy: "row_xy ''WGS84'' ?r0 = Inr (Fin (- 1.5), Fin 5)"
    by (simp add: blank_rows_def py_get_def float_examples bind_exn_def)
  have xy': "row_xy ''WGS84'' (drop_column ''lon'' ?r0) = Inr (Fin (- 1.5), Fin 5)"
    using first blank xy by blast
  have fails: "isl (process_row (\<lambda>x y. Inr (x, y)) ''WGS84'' ''UTM_30N'' ?r1)"
    using second fn by blast
  have "length blank_rows = 2" by (simp add: blank_rows_def)
  then have "\<exists>res res'. transform_batch noop_pyproj (Some blank_rows) (Some ''WGS84'') (Some ''UTM_30N'')
                    = Inr res
            \<and> Suc 1 \<in> fst ` set (br_errors res)
            \<and> transform_batch noop_pyproj (Some (take 1 blank_rows @ drop (Suc 1) blank_rows))
                 (Some ''WGS84'') (Some ''UTM_30N'') = Inr res'
            \<and> br_data res = br_data res'"
    using second fn by (simp add: CRS_DEFINITIONS_def noop_pyproj_def)
  moreover have "take 1 blank_rows @ drop (Suc 1) blank_rows = [blank_rows ! 0]"
    by (simp add: blank_rows_def)
  ultimately have batch: "\<exists>res res'. transform_batch noop_pyproj (Some blank_rows) (Some ''WGS84'') (Some ''UTM_30N'')
                    = Inr res
            \<and> 2 \<in> fst ` set (br_errors res)
            \<and> transform_batch noop_pyproj (Some [blank_rows ! 0]) (Some ''WGS84'') (Some ''UTM_30N'')
                = Inr res'
            \<and> br_data res = br_data res'"
    by (simp add: numeral_2_eq_2)
  from blank fx fy xy xy' fn fails batch show ?thesis
    by (intro conjI)
qed

end
